theory Spec2Isabelle
  imports Main "HOL-Library.AList"
begin

section \<open>Root parameters: data model\<close>

text \<open>
  The development embeds \<^verbatim>\<open>packages/next/src/server/request/root-params.ts\<close>.
  JavaScript objects have identity and are mutated in place, so promises live in an explicit
  heap (a list, the address of a promise being its index) and every function passes the
  state. A thrown exception is the \<open>Inl\<close> branch of a sum, together with the state reached
  when it was thrown.
\<close>

type_synonym ref = nat

text \<open>
  Modelled from the spec: the type \<^verbatim>\<open>Params\<close> is imported from \<^verbatim>\<open>./params\<close>, which is not
  among the sources. The spec's ParamSet is an "ordered mapping from string key to string or
  string-sequence value"; \<open>Undefined\<close> is what JavaScript reads at a key that is absent.
  A \<open>Params\<close> value stands for one object: \<open>ident\<close> is its identity, \<open>entries\<close> its own
  enumerable properties in \<^verbatim>\<open>Object.keys\<close> order. The code never mutates a \<^verbatim>\<open>Params\<close>
  object, so the pair is the object.
\<close>

datatype param_value = Undefined | Str string | StrArray "string list"

record Params =
  ident :: nat
  entries :: "(string \<times> param_value) list"

definition Object_keys :: "Params \<Rightarrow> string list" where
  "Object_keys underlyingParams = map fst (entries underlyingParams)"

definition get_param :: "Params \<Rightarrow> string \<Rightarrow> param_value" where
  "get_param underlyingParams prop =
     (case map_of (entries underlyingParams) prop of None \<Rightarrow> Undefined | Some v \<Rightarrow> v)"

text \<open>
  Modelled from the spec: \<^verbatim>\<open>WorkStore\<close> and the work-unit stores are imported types. Only
  the fields the code reads are kept. \<^verbatim>\<open>FallbackRouteParams\<close> is used through \<^verbatim>\<open>has\<close>
  alone, so it is the set of placeholder key names (the spec's PlaceholderKeys); \<open>None\<close> is
  \<^verbatim>\<open>null\<close>. The constructors of \<open>WorkUnitStore\<close> are the values of its \<^verbatim>\<open>type\<close> tag:
  \<^verbatim>\<open>'prerender'\<close> (with its \<^verbatim>\<open>renderSignal\<close>), \<^verbatim>\<open>'prerender-ppr'\<close> (with its
  \<^verbatim>\<open>dynamicTracking\<close> handle), \<^verbatim>\<open>'prerender-legacy'\<close>, and the tags the resolver's
  \<^verbatim>\<open>if\<close> chain does not name.
\<close>

record WorkStore =
  route :: string
  rootParams :: Params
  fallbackRouteParams :: "string set option"

datatype WorkUnitStore =
    Prerender (renderSignal: nat)
  | PrerenderPPR (dynamicTracking: nat)
  | PrerenderLegacy
  | Request
  | Cache
  | UnstableCache

datatype error =
    InvariantError string
  | Postponed string string
  | StaticGenerationInterrupted string
  | HangingPromiseRejection string
  | TypeError

text \<open>
  The trace of calls that leave the module (the suspend, abort and recording primitives)
  and of the stores into the identity cache.
\<close>

datatype event =
    Postpone string string nat
  | Interrupt string WorkStore WorkUnitStore
  | TrackDynamicData WorkStore "WorkUnitStore option"
  | CacheSet Params ref

text \<open>
  An own property of a promise object is a data property (its value and its \<^verbatim>\<open>writable\<close>
  and \<^verbatim>\<open>enumerable\<close> attributes) or the accessor pair that \<^verbatim>\<open>makeErroringRootParams\<close>
  installs (enumerable and configurable), which carries what its two closures capture:
  the promise, the property name, the work store and the prerender store.
\<close>

datatype slot =
    Data (slot_value: param_value) (writable: bool) (enumerable: bool)
  | Accessor ref string WorkStore WorkUnitStore

datatype settlement =
    Fulfilled Params
  | Rejected error
  | Hanging nat string

record promise =
  settlement :: settlement
  own :: "(string \<times> slot) list"

record state =
  promises :: "promise list"
  CachedParams :: "Params \<Rightarrow> ref option"
  events :: "event list"

definition init :: state where
  "init = \<lparr>promises = [], CachedParams = (\<lambda>_. None), events = []\<rparr>"

text \<open>
  The two imports from \<^verbatim>\<open>./utils\<close> are parameters of the model: the set
  \<^verbatim>\<open>wellKnownProperties\<close> of reserved member names and the function
  \<^verbatim>\<open>describeStringPropertyAccess\<close>.
\<close>

record externals =
  wellKnownProperties :: "string set"
  describeStringPropertyAccess :: "string \<Rightarrow> string \<Rightarrow> string"

section \<open>Exceptions and state\<close>

type_synonym 'a outcome = "(error + 'a) \<times> state"

definition returnE :: "'a \<Rightarrow> state \<Rightarrow> 'a outcome" where
  "returnE a s = (Inr a, s)"

definition throwE :: "error \<Rightarrow> state \<Rightarrow> 'a outcome" where
  "throwE e s = (Inl e, s)"

definition bindE ::
  "(state \<Rightarrow> 'a outcome) \<Rightarrow> ('a \<Rightarrow> state \<Rightarrow> 'b outcome) \<Rightarrow> state \<Rightarrow> 'b outcome" where
  "bindE m f s = (case m s of (Inl e, s') \<Rightarrow> (Inl e, s') | (Inr a, s') \<Rightarrow> f a s')"

definition emit :: "event \<Rightarrow> state \<Rightarrow> state" where
  "emit e s = s\<lparr>events := events s @ [e]\<rparr>"

definition alloc :: "promise \<Rightarrow> state \<Rightarrow> ref \<times> state" where
  "alloc p s = (length (promises s), s\<lparr>promises := promises s @ [p]\<rparr>)"

text \<open>\<^verbatim>\<open>Promise.resolve(underlyingParams)\<close>: a new promise fulfilled with the object.\<close>

definition Promise_resolve :: "Params \<Rightarrow> state \<Rightarrow> ref \<times> state" where
  "Promise_resolve v s = alloc \<lparr>settlement = Fulfilled v, own = []\<rparr> s"

text \<open>\<^verbatim>\<open>CachedParams.set(underlyingParams, promise)\<close>, recorded in the trace.\<close>

definition CachedParams_set :: "Params \<Rightarrow> ref \<Rightarrow> state \<Rightarrow> state" where
  "CachedParams_set underlyingParams p s =
     emit (CacheSet underlyingParams p)
       (s\<lparr>CachedParams := (CachedParams s)(underlyingParams \<mapsto> p)\<rparr>)"

text \<open>
  Defining an own property of the promise at address \<open>r\<close>: a new key goes last, an
  existing key keeps its place (JavaScript's property order).
\<close>

definition defineOwn :: "ref \<Rightarrow> string \<Rightarrow> slot \<Rightarrow> state \<Rightarrow> state" where
  "defineOwn r prop d s =
     (if r < length (promises s)
      then s\<lparr>promises := (promises s)
             [r := (promises s ! r)\<lparr>own := AList.update prop d (own (promises s ! r))\<rparr>]\<rparr>
      else s)"

section \<open>The primitives of the render engine\<close>

text \<open>
  Modelled from the spec: \<^verbatim>\<open>postponeWithTracking\<close> is imported from
  \<^verbatim>\<open>../app-render/dynamic-rendering\<close>, which is not among the sources. Spec, section 6:
  "\<^verbatim>\<open>suspend(route, label, trackingHandle)\<close> (diverges)"; section 9: "\<^verbatim>\<open>suspend\<close> and
  \<^verbatim>\<open>abort\<close> never return (the caller's continuation does not proceed past them)".
\<close>

definition postponeWithTracking :: "string \<Rightarrow> string \<Rightarrow> nat \<Rightarrow> state \<Rightarrow> unit outcome" where
  "postponeWithTracking rt expression tracking s =
     throwE (Postponed rt expression) (emit (Postpone rt expression tracking) s)"

text \<open>
  Modelled from the spec: \<^verbatim>\<open>throwToInterruptStaticGeneration\<close> is imported from
  \<^verbatim>\<open>../app-render/dynamic-rendering\<close>, which is not among the sources. Spec, section 6:
  "\<^verbatim>\<open>abort(label, scope, unit)\<close> (diverges)".
\<close>

definition throwToInterruptStaticGeneration ::
  "string \<Rightarrow> WorkStore \<Rightarrow> WorkUnitStore \<Rightarrow> state \<Rightarrow> unit outcome" where
  "throwToInterruptStaticGeneration expression workStore prerenderStore s =
     throwE (StaticGenerationInterrupted expression)
       (emit (Interrupt expression workStore prerenderStore) s)"

text \<open>
  Modelled from the spec: \<^verbatim>\<open>trackDynamicDataInDynamicRender\<close> is imported from
  \<^verbatim>\<open>../app-render/dynamic-rendering\<close>, which is not among the sources. Spec, section 6:
  "\<^verbatim>\<open>recordDynamicAccess(scope, unit)\<close> (side-effecting, returns normally)".
\<close>

definition trackDynamicDataInDynamicRender ::
  "WorkStore \<Rightarrow> WorkUnitStore option \<Rightarrow> state \<Rightarrow> unit outcome" where
  "trackDynamicDataInDynamicRender workStore workUnitStore s =
     returnE () (emit (TrackDynamicData workStore workUnitStore) s)"

text \<open>
  Modelled from the spec: \<^verbatim>\<open>makeHangingPromise\<close> is imported from
  \<^verbatim>\<open>../dynamic-rendering-utils\<close>, which is not among the sources. Spec, section 9:
  "\<^verbatim>\<open>makeNeverSettlingFuture\<close> returns a future whose only transition is 'reject when
  external signal fires'". The promise is allocated pending on its signal; \<open>abort\<close> below
  is that one transition.
\<close>

definition makeHangingPromise :: "nat \<Rightarrow> string \<Rightarrow> state \<Rightarrow> ref \<times> state" where
  "makeHangingPromise signal expression s =
     alloc \<lparr>settlement = Hanging signal expression, own = []\<rparr> s"

definition abort_promise :: "nat \<Rightarrow> promise \<Rightarrow> promise" where
  "abort_promise signal p =
     (case settlement p of
        Hanging sg expression \<Rightarrow>
          if sg = signal then p\<lparr>settlement := Rejected (HangingPromiseRejection expression)\<rparr>
          else p
      | Fulfilled v \<Rightarrow> p
      | Rejected e \<Rightarrow> p)"

definition abort :: "nat \<Rightarrow> state \<Rightarrow> state" where
  "abort signal s = s\<lparr>promises := map (abort_promise signal) (promises s)\<rparr>"

section \<open>The builders\<close>

text \<open>
  \<^verbatim>\<open>for (const key in underlyingParams) { if (fallbackParams.has(key)) { ... break } }\<close>
  over the keys of the object, in order.
\<close>

primrec hasSomeFallbackParams :: "string set \<Rightarrow> string list \<Rightarrow> bool" where
  "hasSomeFallbackParams fallbackParams [] = False"
| "hasSomeFallbackParams fallbackParams (key # keys) =
     (if key \<in> fallbackParams then True else hasSomeFallbackParams fallbackParams keys)"

text \<open>
  \<^verbatim>\<open>(promise as any)[prop] = underlyingParams[prop]\<close> on the promise under construction.
  The promise is new, and the loop that assigns to a key never installs an accessor at it,
  so the assignment defines an ordinary (writable, enumerable) data property. A \<^verbatim>\<open>Params\<close>
  object filled by assignment has no own key \<^verbatim>\<open>__proto__\<close>, the one name whose assignment
  would run an inherited setter instead.
\<close>

definition assign :: "ref \<Rightarrow> string \<Rightarrow> param_value \<Rightarrow> state \<Rightarrow> state" where
  "assign promise prop v s = defineOwn promise prop (Data v True True) s"

text \<open>Lines 181 to 203.\<close>

definition untracked_prop :: "externals \<Rightarrow> Params \<Rightarrow> ref \<Rightarrow> string \<Rightarrow> state \<Rightarrow> state" where
  "untracked_prop X underlyingParams promise prop s =
     (if prop \<in> wellKnownProperties X then s
      else assign promise prop (get_param underlyingParams prop) s)"

definition makeUntrackedRootParams :: "externals \<Rightarrow> Params \<Rightarrow> state \<Rightarrow> ref \<times> state" where
  "makeUntrackedRootParams X underlyingParams s =
     (case CachedParams s underlyingParams of
        Some cachedParams \<Rightarrow> (cachedParams, s)
      | None \<Rightarrow>
          (case Promise_resolve underlyingParams s of
             (promise, s1) \<Rightarrow>
               (promise,
                fold (untracked_prop X underlyingParams promise) (Object_keys underlyingParams)
                  (CachedParams_set underlyingParams promise s1))))"

text \<open>Lines 114 to 179. The body of the \<^verbatim>\<open>forEach\<close> callback is \<open>erroring_prop\<close>.\<close>

definition erroring_prop ::
  "externals \<Rightarrow> Params \<Rightarrow> string set \<Rightarrow> WorkStore \<Rightarrow> WorkUnitStore \<Rightarrow> ref \<Rightarrow> string \<Rightarrow>
   state \<Rightarrow> state" where
  "erroring_prop X underlyingParams fallbackParams workStore prerenderStore promise prop s =
     (if prop \<in> wellKnownProperties X then s
      else if prop \<in> fallbackParams
        then defineOwn promise prop (Accessor promise prop workStore prerenderStore) s
        else assign promise prop (get_param underlyingParams prop) s)"

definition makeErroringRootParams ::
  "externals \<Rightarrow> Params \<Rightarrow> string set \<Rightarrow> WorkStore \<Rightarrow> WorkUnitStore \<Rightarrow> state \<Rightarrow> ref \<times> state" where
  "makeErroringRootParams X underlyingParams fallbackParams workStore prerenderStore s =
     (case CachedParams s underlyingParams of
        Some cachedParams \<Rightarrow> (cachedParams, s)
      | None \<Rightarrow>
          (case Promise_resolve underlyingParams s of
             (promise, s1) \<Rightarrow>
               (promise,
                fold (erroring_prop X underlyingParams fallbackParams workStore prerenderStore
                        promise)
                  (Object_keys underlyingParams)
                  (CachedParams_set underlyingParams promise s1))))"

text \<open>
  Lines 65 to 112. The parameter type \<^verbatim>\<open>PrerenderStore\<close> admits the three prerender tags;
  at any other tag the definition does what the code's comparisons do.
\<close>

definition createPrerenderParams ::
  "externals \<Rightarrow> Params \<Rightarrow> WorkStore \<Rightarrow> WorkUnitStore \<Rightarrow> state \<Rightarrow> ref \<times> state" where
  "createPrerenderParams X underlyingParams workStore prerenderStore s =
     (case fallbackRouteParams workStore of
        Some fallbackParams \<Rightarrow>
          if hasSomeFallbackParams fallbackParams (Object_keys underlyingParams)
          then
            (case prerenderStore of
               Prerender signal \<Rightarrow>
                 (case CachedParams s underlyingParams of
                    Some cachedParams \<Rightarrow> (cachedParams, s)
                  | None \<Rightarrow>
                      (case makeHangingPromise signal ''`params`'' s of
                         (promise, s1) \<Rightarrow>
                           (promise, CachedParams_set underlyingParams promise s1)))
             | PrerenderPPR tracking \<Rightarrow>
                 makeErroringRootParams X underlyingParams fallbackParams workStore
                   prerenderStore s
             | PrerenderLegacy \<Rightarrow>
                 makeErroringRootParams X underlyingParams fallbackParams workStore
                   prerenderStore s
             | Request \<Rightarrow>
                 makeErroringRootParams X underlyingParams fallbackParams workStore
                   prerenderStore s
             | Cache \<Rightarrow>
                 makeErroringRootParams X underlyingParams fallbackParams workStore
                   prerenderStore s
             | UnstableCache \<Rightarrow>
                 makeErroringRootParams X underlyingParams fallbackParams workStore
                   prerenderStore s)
          else makeUntrackedRootParams X underlyingParams s
      | None \<Rightarrow> makeUntrackedRootParams X underlyingParams s)"

section \<open>The resolver\<close>

text \<open>
  Lines 25 to 63. \<open>dispatch\<close> is the \<^verbatim>\<open>if (workUnitStore) { ... }\<close> block: the result of
  \<^verbatim>\<open>createPrerenderParams\<close> is an expression statement, so only its effect on the state
  remains. \<open>unstable_rootParams_body\<close> is the function body; \<open>unstable_rootParams\<close>
  is the \<^verbatim>\<open>async\<close> function: every call returns a new promise, fulfilled with the value
  the body returns or rejected with what it throws. The body has no \<^verbatim>\<open>await\<close>, so the
  promise is settled when the call returns.
\<close>

definition dispatch ::
  "externals \<Rightarrow> WorkStore \<Rightarrow> WorkUnitStore option \<Rightarrow> state \<Rightarrow> unit outcome" where
  "dispatch X workStore workUnitStore s =
     (case workUnitStore of
        None \<Rightarrow> returnE () s
      | Some (Prerender signal) \<Rightarrow>
          returnE ()
            (snd (createPrerenderParams X (rootParams workStore) workStore (Prerender signal) s))
      | Some (PrerenderPPR tracking) \<Rightarrow>
          postponeWithTracking (route workStore) ''rootParams'' tracking s
      | Some PrerenderLegacy \<Rightarrow>
          throwToInterruptStaticGeneration ''rootParams'' workStore PrerenderLegacy s
      | Some Request \<Rightarrow> returnE () s
      | Some Cache \<Rightarrow> returnE () s
      | Some UnstableCache \<Rightarrow> returnE () s)"

definition unstable_rootParams_body ::
  "externals \<Rightarrow> WorkStore option \<Rightarrow> WorkUnitStore option \<Rightarrow> state \<Rightarrow> Params outcome" where
  "unstable_rootParams_body X workStore workUnitStore s =
     (case workStore of
        None \<Rightarrow> throwE (InvariantError ''Missing workStore in unstable_rootParams'') s
      | Some ws \<Rightarrow>
          bindE (dispatch X ws workUnitStore)
            (\<lambda>_. bindE (trackDynamicDataInDynamicRender ws workUnitStore)
               (\<lambda>_. returnE (rootParams ws))) s)"

definition unstable_rootParams ::
  "externals \<Rightarrow> WorkStore option \<Rightarrow> WorkUnitStore option \<Rightarrow> state \<Rightarrow> ref \<times> state" where
  "unstable_rootParams X workStore workUnitStore s =
     (case unstable_rootParams_body X workStore workUnitStore s of
        (Inl e, s') \<Rightarrow> alloc \<lparr>settlement = Rejected e, own = []\<rparr> s'
      | (Inr v, s') \<Rightarrow> alloc \<lparr>settlement = Fulfilled v, own = []\<rparr> s')"

section \<open>Reading and writing a property of a wrapper\<close>

text \<open>
  The \<^verbatim>\<open>get()\<close> of lines 138 to 161, which has no \<^verbatim>\<open>return\<close>, and the
  \<^verbatim>\<open>set(newValue)\<close> of lines 162 to 168.
\<close>

definition getter ::
  "externals \<Rightarrow> string \<Rightarrow> WorkStore \<Rightarrow> WorkUnitStore \<Rightarrow> state \<Rightarrow> param_value outcome" where
  "getter X prop workStore prerenderStore s =
     bindE
       (case prerenderStore of
          PrerenderPPR tracking \<Rightarrow>
            postponeWithTracking (route workStore)
              (describeStringPropertyAccess X ''rootParams'' prop) tracking
        | Prerender signal \<Rightarrow>
            throwToInterruptStaticGeneration
              (describeStringPropertyAccess X ''rootParams'' prop) workStore prerenderStore
        | PrerenderLegacy \<Rightarrow>
            throwToInterruptStaticGeneration
              (describeStringPropertyAccess X ''rootParams'' prop) workStore prerenderStore
        | Request \<Rightarrow>
            throwToInterruptStaticGeneration
              (describeStringPropertyAccess X ''rootParams'' prop) workStore prerenderStore
        | Cache \<Rightarrow>
            throwToInterruptStaticGeneration
              (describeStringPropertyAccess X ''rootParams'' prop) workStore prerenderStore
        | UnstableCache \<Rightarrow>
            throwToInterruptStaticGeneration
              (describeStringPropertyAccess X ''rootParams'' prop) workStore prerenderStore)
       (\<lambda>_. returnE Undefined) s"

definition setter :: "ref \<Rightarrow> string \<Rightarrow> param_value \<Rightarrow> state \<Rightarrow> state" where
  "setter promise prop newValue s = defineOwn promise prop (Data newValue True True) s"

text \<open>
  What JavaScript does at \<^verbatim>\<open>wrapper[key]\<close> and \<^verbatim>\<open>wrapper[key] = v\<close> for a promise of the
  heap. A key with no own property is looked up on the prototype chain, which the model
  does not hold: the read answers \<open>Inherited\<close>. A write to a key with no own property
  defines one; a write to a data property that is not writable throws (module code is
  strict). An address outside the heap denotes no object: reading answers \<open>Inherited\<close>
  and writing changes nothing.
\<close>

datatype read_result = Read param_value | Inherited

definition own_slot :: "state \<Rightarrow> ref \<Rightarrow> string \<Rightarrow> slot option" where
  "own_slot s r key =
     (if r < length (promises s) then map_of (own (promises s ! r)) key else None)"

definition get_property :: "externals \<Rightarrow> ref \<Rightarrow> string \<Rightarrow> state \<Rightarrow> read_result outcome" where
  "get_property X r key s =
     (case own_slot s r key of
        None \<Rightarrow> returnE Inherited s
      | Some (Data v w e) \<Rightarrow> returnE (Read v) s
      | Some (Accessor promise prop workStore prerenderStore) \<Rightarrow>
          bindE (getter X prop workStore prerenderStore) (\<lambda>v. returnE (Read v)) s)"

definition set_property :: "ref \<Rightarrow> string \<Rightarrow> param_value \<Rightarrow> state \<Rightarrow> unit outcome" where
  "set_property r key v s =
     (case own_slot s r key of
        None \<Rightarrow> returnE () (defineOwn r key (Data v True True) s)
      | Some (Data old w e) \<Rightarrow>
          if w then returnE () (defineOwn r key (Data v w e) s) else throwE TypeError s
      | Some (Accessor promise prop workStore prerenderStore) \<Rightarrow>
          returnE () (setter promise prop v s))"

section \<open>Runs of a render\<close>

text \<open>
  Everything that can happen to the state: calls of the resolver and of the builders,
  reads and writes of wrapper properties, and abort signals firing.
\<close>

datatype action =
    CallRootParams "WorkStore option" "WorkUnitStore option"
  | CallCreatePrerenderParams Params WorkStore WorkUnitStore
  | CallMakeErroring Params "string set" WorkStore WorkUnitStore
  | CallMakeUntracked Params
  | ReadProperty ref string
  | WriteProperty ref string param_value
  | FireAbort nat

primrec exec :: "externals \<Rightarrow> action \<Rightarrow> state \<Rightarrow> state" where
  "exec X (CallRootParams workStore workUnitStore) s =
     snd (unstable_rootParams X workStore workUnitStore s)"
| "exec X (CallCreatePrerenderParams p workStore prerenderStore) s =
     snd (createPrerenderParams X p workStore prerenderStore s)"
| "exec X (CallMakeErroring p fallbackParams workStore prerenderStore) s =
     snd (makeErroringRootParams X p fallbackParams workStore prerenderStore s)"
| "exec X (CallMakeUntracked p) s = snd (makeUntrackedRootParams X p s)"
| "exec X (ReadProperty r key) s = snd (get_property X r key s)"
| "exec X (WriteProperty r key v) s = snd (set_property r key v s)"
| "exec X (FireAbort signal) s = abort signal s"

definition run :: "externals \<Rightarrow> action list \<Rightarrow> state \<Rightarrow> state" where
  "run X acts s = fold (exec X) acts s"

section \<open>Auxiliary notions for the proofs\<close>

text \<open>
  The effect of one \<^verbatim>\<open>forEach\<close> step on the property table of the promise under
  construction, and the replacement of a promise's property table.
\<close>

definition untracked_own ::
  "externals \<Rightarrow> Params \<Rightarrow> string \<Rightarrow> (string \<times> slot) list \<Rightarrow> (string \<times> slot) list" where
  "untracked_own X underlyingParams prop al =
     (if prop \<in> wellKnownProperties X then al
      else AList.update prop (Data (get_param underlyingParams prop) True True) al)"

definition erroring_own ::
  "externals \<Rightarrow> Params \<Rightarrow> string set \<Rightarrow> WorkStore \<Rightarrow> WorkUnitStore \<Rightarrow> ref \<Rightarrow> string \<Rightarrow>
   (string \<times> slot) list \<Rightarrow> (string \<times> slot) list" where
  "erroring_own X underlyingParams fallbackParams workStore prerenderStore promise prop al =
     (if prop \<in> wellKnownProperties X then al
      else if prop \<in> fallbackParams
        then AList.update prop (Accessor promise prop workStore prerenderStore) al
        else AList.update prop (Data (get_param underlyingParams prop) True True) al)"

definition set_own :: "ref \<Rightarrow> (string \<times> slot) list \<Rightarrow> state \<Rightarrow> state" where
  "set_own r al s = s\<lparr>promises := (promises s)[r := (promises s ! r)\<lparr>own := al\<rparr>]\<rparr>"

text \<open>The state after a builder missed the cache and built the promise \<open>p\<close>.\<close>

definition built :: "Params \<Rightarrow> promise \<Rightarrow> state \<Rightarrow> state" where
  "built P p s =
     \<lparr>promises = promises s @ [p],
      CachedParams = (CachedParams s)(P \<mapsto> length (promises s)),
      events = events s @ [CacheSet P (length (promises s))]\<rparr>"

text \<open>The promise \<^verbatim>\<open>createPrerenderParams\<close> builds at address \<open>r\<close> on a miss.\<close>

definition create_promise ::
  "externals \<Rightarrow> Params \<Rightarrow> WorkStore \<Rightarrow> WorkUnitStore \<Rightarrow> ref \<Rightarrow> promise" where
  "create_promise X P ws ps r =
    (case fallbackRouteParams ws of
       None \<Rightarrow> \<lparr>settlement = Fulfilled P, own = fold (untracked_own X P) (Object_keys P) []\<rparr>
     | Some fb \<Rightarrow>
        if hasSomeFallbackParams fb (Object_keys P) then
          (case ps of
             Prerender signal \<Rightarrow> \<lparr>settlement = Hanging signal ''`params`'', own = []\<rparr>
           | _ \<Rightarrow> \<lparr>settlement = Fulfilled P,
                  own = fold (erroring_own X P fb ws ps r) (Object_keys P) []\<rparr>)
        else \<lparr>settlement = Fulfilled P, own = fold (untracked_own X P) (Object_keys P) []\<rparr>)"

text \<open>
  Observations of the trace: the stores into the cache under one key, and the calls of
  the suspend and abort primitives.
\<close>

primrec is_store :: "Params \<Rightarrow> event \<Rightarrow> bool" where
  "is_store P (Postpone rt expression tracking) = False"
| "is_store P (Interrupt expression workStore prerenderStore) = False"
| "is_store P (TrackDynamicData workStore workUnitStore) = False"
| "is_store P (CacheSet Q r) = (Q = P)"

definition stores :: "Params \<Rightarrow> state \<Rightarrow> nat" where
  "stores P s = length (filter (is_store P) (events s))"

primrec is_interruption :: "event \<Rightarrow> bool" where
  "is_interruption (Postpone rt expression tracking) = True"
| "is_interruption (Interrupt expression workStore prerenderStore) = True"
| "is_interruption (TrackDynamicData workStore workUnitStore) = False"
| "is_interruption (CacheSet Q r) = False"

definition interruptions :: "state \<Rightarrow> event list" where
  "interruptions s = filter is_interruption (events s)"

text \<open>
  The invariant of the cache: a key is stored exactly once if it is bound and never
  otherwise, and every bound wrapper is a promise of the heap.
\<close>

definition cache_inv :: "state \<Rightarrow> bool" where
  "cache_inv s \<longleftrightarrow>
     (\<forall>P. stores P s = (case CachedParams s P of None \<Rightarrow> 0 | Some w \<Rightarrow> 1)) \<and>
     (\<forall>P w. CachedParams s P = Some w \<longrightarrow> w < length (promises s))"

text \<open>What every step preserves: the heap's size, the cache's bindings, the invariant.\<close>

definition grows :: "state \<Rightarrow> state \<Rightarrow> bool" where
  "grows s s' \<longleftrightarrow>
     length (promises s) \<le> length (promises s') \<and>
     (\<forall>P w. CachedParams s P = Some w \<longrightarrow> CachedParams s' P = Some w) \<and>
     (cache_inv s \<longrightarrow> cache_inv s')"

text \<open>
  What the accessor installed for \<open>key\<close> does when it is read (lines 138 to 161): the one
  event it records and the error it throws.
\<close>

definition trap_event :: "externals \<Rightarrow> string \<Rightarrow> WorkStore \<Rightarrow> WorkUnitStore \<Rightarrow> event" where
  "trap_event X key ws ps =
     (case ps of
        PrerenderPPR tracking \<Rightarrow>
          Postpone (route ws) (describeStringPropertyAccess X ''rootParams'' key) tracking
      | _ \<Rightarrow> Interrupt (describeStringPropertyAccess X ''rootParams'' key) ws ps)"

definition trap_error :: "externals \<Rightarrow> string \<Rightarrow> WorkStore \<Rightarrow> WorkUnitStore \<Rightarrow> error" where
  "trap_error X key ws ps =
     (case ps of
        PrerenderPPR tracking \<Rightarrow>
          Postponed (route ws) (describeStringPropertyAccess X ''rootParams'' key)
      | _ \<Rightarrow> StaticGenerationInterrupted (describeStringPropertyAccess X ''rootParams'' key))"

text \<open>A key of a promise in its resolved state: an ordinary data property.\<close>

definition resolved :: "state \<Rightarrow> ref \<Rightarrow> string \<Rightarrow> bool" where
  "resolved s r key \<longleftrightarrow> (\<exists>v. own_slot s r key = Some (Data v True True))"

text \<open>The settlement of the promise at an address of the heap.\<close>

definition settled :: "state \<Rightarrow> ref \<Rightarrow> settlement option" where
  "settled s r = (if r < length (promises s) then Some (settlement (promises s ! r)) else None)"

section \<open>Concrete inputs\<close>

text \<open>
  An instance of the two imports from \<^verbatim>\<open>./utils\<close> and the render scopes on which the
  theorems below are evaluated: the root parameters \<^verbatim>\<open>{lang: "en", locale: "us"}\<close> of the
  route \<^verbatim>\<open>/[lang]/[locale]\<close>, fully known (\<open>known_store\<close>) or with \<^verbatim>\<open>lang\<close> a
  placeholder of a fallback shell (\<open>shell_store\<close>), and a route whose second parameter is
  called \<^verbatim>\<open>then\<close>, both parameters placeholders (\<open>then_store\<close>).
\<close>

definition describe_sample :: "string \<Rightarrow> string \<Rightarrow> string" where
  "describe_sample target prop = target @ ''.'' @ prop"

definition sample_externals :: externals where
  "sample_externals =
     \<lparr>wellKnownProperties = {''then'', ''catch'', ''finally''},
      describeStringPropertyAccess = describe_sample\<rparr>"

definition en_us :: Params where
  "en_us = \<lparr>ident = 0, entries = [(''lang'', Str ''en''), (''locale'', Str ''us'')]\<rparr>"

definition known_store :: WorkStore where
  "known_store =
     \<lparr>route = ''/[lang]/[locale]'', rootParams = en_us, fallbackRouteParams = None\<rparr>"

definition shell_store :: WorkStore where
  "shell_store =
     \<lparr>route = ''/[lang]/[locale]'', rootParams = en_us, fallbackRouteParams = Some {''lang''}\<rparr>"

definition then_params :: Params where
  "then_params = \<lparr>ident = 1, entries = [(''lang'', Str ''en''), (''then'', Str ''x'')]\<rparr>"

definition then_store :: WorkStore where
  "then_store =
     \<lparr>route = ''/[lang]/[then]'', rootParams = then_params,
      fallbackRouteParams = Some {''lang'', ''then''}\<rparr>"

section \<open>Properties of the builders\<close>

lemmas sample_defs = describe_sample_def sample_externals_def en_us_def known_store_def
  shell_store_def then_params_def then_store_def

lemmas model_defs = init_def Object_keys_def get_param_def returnE_def throwE_def bindE_def
  emit_def alloc_def Promise_resolve_def CachedParams_set_def defineOwn_def
  postponeWithTracking_def throwToInterruptStaticGeneration_def
  trackDynamicDataInDynamicRender_def makeHangingPromise_def abort_promise_def abort_def
  assign_def untracked_prop_def makeUntrackedRootParams_def erroring_prop_def
  makeErroringRootParams_def createPrerenderParams_def dispatch_def
  unstable_rootParams_body_def unstable_rootParams_def getter_def setter_def own_slot_def
  get_property_def set_property_def run_def stores_def interruptions_def

lemma set_own_same: "set_own r (own (promises s ! r)) s = s"
  by (simp add: set_own_def)

lemma fold_untracked_prop:
  "r < length (promises s) \<Longrightarrow>
   fold (untracked_prop X P r) keys s =
   set_own r (fold (untracked_own X P) keys (own (promises s ! r))) s"
proof (induction keys arbitrary: s)
  case Nil
  then show ?case by (simp add: set_own_same)
next
  case (Cons k keys)
  let ?s1 = "untracked_prop X P r k s"
  have len: "r < length (promises ?s1)"
    using Cons.prems by (simp add: untracked_prop_def assign_def defineOwn_def)
  have own1: "own (promises ?s1 ! r) = untracked_own X P k (own (promises s ! r))"
    using Cons.prems by (simp add: untracked_prop_def untracked_own_def assign_def defineOwn_def)
  have so: "set_own r al ?s1 = set_own r al s" for al
    using Cons.prems by (simp add: untracked_prop_def assign_def defineOwn_def set_own_def)
  show ?case
    using Cons.IH [OF len] by (simp add: own1 so)
qed

lemma fold_erroring_prop:
  "r < length (promises s) \<Longrightarrow>
   fold (erroring_prop X P fb ws ps r) keys s =
   set_own r (fold (erroring_own X P fb ws ps r) keys (own (promises s ! r))) s"
proof (induction keys arbitrary: s)
  case Nil
  then show ?case by (simp add: set_own_same)
next
  case (Cons k keys)
  let ?s1 = "erroring_prop X P fb ws ps r k s"
  have len: "r < length (promises ?s1)"
    using Cons.prems by (simp add: erroring_prop_def assign_def defineOwn_def)
  have own1: "own (promises ?s1 ! r) = erroring_own X P fb ws ps r k (own (promises s ! r))"
    using Cons.prems by (simp add: erroring_prop_def erroring_own_def assign_def defineOwn_def)
  have so: "set_own r al ?s1 = set_own r al s" for al
    using Cons.prems by (simp add: erroring_prop_def assign_def defineOwn_def set_own_def)
  show ?case
    using Cons.IH [OF len] by (simp add: own1 so)
qed

lemma map_of_fold_untracked_own:
  "map_of (fold (untracked_own X P) keys al) k =
     (if k \<in> set keys \<and> k \<notin> wellKnownProperties X
      then Some (Data (get_param P k) True True) else map_of al k)"
  by (induction keys arbitrary: al) (auto simp: untracked_own_def update_conv')

lemma map_of_fold_erroring_own:
  "map_of (fold (erroring_own X P fb ws ps r) keys al) k =
     (if k \<in> set keys \<and> k \<notin> wellKnownProperties X
      then Some (if k \<in> fb then Accessor r k ws ps else Data (get_param P k) True True)
      else map_of al k)"
  by (induction keys arbitrary: al) (auto simp: erroring_own_def update_conv')

lemma makeUntrackedRootParams_miss:
  "CachedParams s P = None \<Longrightarrow>
   makeUntrackedRootParams X P s =
     (length (promises s),
      built P \<lparr>settlement = Fulfilled P,
               own = fold (untracked_own X P) (Object_keys P) []\<rparr> s)"
  by (simp add: makeUntrackedRootParams_def Promise_resolve_def alloc_def CachedParams_set_def
      emit_def fold_untracked_prop set_own_def built_def)

lemma makeUntrackedRootParams_hit:
  "CachedParams s P = Some w \<Longrightarrow> makeUntrackedRootParams X P s = (w, s)"
  by (simp add: makeUntrackedRootParams_def)

lemma makeErroringRootParams_miss:
  "CachedParams s P = None \<Longrightarrow>
   makeErroringRootParams X P fb ws ps s =
     (length (promises s),
      built P \<lparr>settlement = Fulfilled P,
               own = fold (erroring_own X P fb ws ps (length (promises s))) (Object_keys P) []\<rparr> s)"
  by (simp add: makeErroringRootParams_def Promise_resolve_def alloc_def CachedParams_set_def
      emit_def fold_erroring_prop set_own_def built_def)

lemma makeErroringRootParams_hit:
  "CachedParams s P = Some w \<Longrightarrow> makeErroringRootParams X P fb ws ps s = (w, s)"
  by (simp add: makeErroringRootParams_def)

lemma hasSomeFallbackParams_iff:
  "hasSomeFallbackParams fb keys \<longleftrightarrow> set keys \<inter> fb \<noteq> {}"
  by (induction keys) auto

lemma createPrerenderParams_hit:
  "CachedParams s P = Some w \<Longrightarrow> createPrerenderParams X P ws ps s = (w, s)"
  by (simp add: createPrerenderParams_def makeErroringRootParams_hit makeUntrackedRootParams_hit
      split: option.split WorkUnitStore.split)

lemma createPrerenderParams_miss:
  "CachedParams s P = None \<Longrightarrow>
   createPrerenderParams X P ws ps s =
     (length (promises s), built P (create_promise X P ws ps (length (promises s))) s)"
  by (simp add: createPrerenderParams_def create_promise_def makeErroringRootParams_miss
      makeUntrackedRootParams_miss makeHangingPromise_def alloc_def CachedParams_set_def emit_def
      built_def split: option.split WorkUnitStore.split)


lemma grows_refl: "grows s s"
  by (simp add: grows_def)

lemma grows_trans: "grows s s1 \<Longrightarrow> grows s1 s2 \<Longrightarrow> grows s s2"
  by (auto simp: grows_def)

lemma grows_built: "CachedParams s P = None \<Longrightarrow> grows s (built P p s)"
  by (auto simp: grows_def built_def cache_inv_def stores_def less_Suc_eq split: option.splits)

lemma grows_same_cache:
  assumes "length (promises s) \<le> length (promises s')" "CachedParams s' = CachedParams s"
    and "\<And>P. filter (is_store P) (events s') = filter (is_store P) (events s)"
  shows "grows s s'"
  using assms by (fastforce simp: grows_def cache_inv_def stores_def)

lemma createPrerenderParams_cases:
  "createPrerenderParams X P ws ps s =
     (case CachedParams s P of
        Some w \<Rightarrow> (w, s)
      | None \<Rightarrow> (length (promises s),
                  built P (create_promise X P ws ps (length (promises s))) s))"
  by (simp add: createPrerenderParams_hit createPrerenderParams_miss split: option.split)

lemma makeErroringRootParams_cases:
  "makeErroringRootParams X P fb ws ps s =
     (case CachedParams s P of
        Some w \<Rightarrow> (w, s)
      | None \<Rightarrow> (length (promises s),
          built P \<lparr>settlement = Fulfilled P,
               own = fold (erroring_own X P fb ws ps (length (promises s))) (Object_keys P) []\<rparr> s))"
  by (simp add: makeErroringRootParams_hit makeErroringRootParams_miss split: option.split)

lemma makeUntrackedRootParams_cases:
  "makeUntrackedRootParams X P s =
     (case CachedParams s P of
        Some w \<Rightarrow> (w, s)
      | None \<Rightarrow> (length (promises s),
          built P \<lparr>settlement = Fulfilled P,
               own = fold (untracked_own X P) (Object_keys P) []\<rparr> s))"
  by (simp add: makeUntrackedRootParams_hit makeUntrackedRootParams_miss split: option.split)

lemma grows_createPrerenderParams: "grows s (snd (createPrerenderParams X P ws ps s))"
  by (simp add: createPrerenderParams_cases grows_refl grows_built split: option.split)

lemma grows_makeErroringRootParams: "grows s (snd (makeErroringRootParams X P fb ws ps s))"
  by (simp add: makeErroringRootParams_cases grows_refl grows_built split: option.split)

lemma grows_makeUntrackedRootParams: "grows s (snd (makeUntrackedRootParams X P s))"
  by (simp add: makeUntrackedRootParams_cases grows_refl grows_built split: option.split)

lemma grows_alloc: "grows s (snd (alloc p s))"
  by (rule grows_same_cache) (simp_all add: alloc_def)

lemma grows_emit: "\<not> (\<exists>P r. e = CacheSet P r) \<Longrightarrow> grows s (emit e s)"
  by (rule grows_same_cache) (cases e; simp add: emit_def)+

lemma grows_defineOwn: "grows s (defineOwn r prop d s)"
  by (rule grows_same_cache) (simp_all add: defineOwn_def)

lemma grows_abort: "grows s (abort signal s)"
  by (rule grows_same_cache) (simp_all add: abort_def)

lemma grows_dispatch: "grows s (snd (dispatch X ws wus s))"
  by (auto simp: dispatch_def returnE_def throwE_def postponeWithTracking_def
      throwToInterruptStaticGeneration_def grows_refl grows_emit grows_createPrerenderParams
      split: option.split WorkUnitStore.split)

lemma grows_body: "grows s (snd (unstable_rootParams_body X workStore wus s))"
proof (cases workStore)
  case None
  then show ?thesis by (simp add: unstable_rootParams_body_def throwE_def grows_refl)
next
  case (Some ws)
  obtain res s1 where d: "dispatch X ws wus s = (res, s1)" by (cases "dispatch X ws wus s")
  have g1: "grows s s1" using grows_dispatch [of s X ws wus] d by simp
  have g2: "grows s1 (emit (TrackDynamicData ws wus) s1)" by (rule grows_emit) simp
  show ?thesis
    using g1 grows_trans [OF g1 g2]
    by (cases res) (simp_all add: Some unstable_rootParams_body_def bindE_def d
        trackDynamicDataInDynamicRender_def returnE_def)
qed

lemma grows_unstable_rootParams: "grows s (snd (unstable_rootParams X workStore wus s))"
proof -
  obtain res s1 where b: "unstable_rootParams_body X workStore wus s = (res, s1)"
    by (cases "unstable_rootParams_body X workStore wus s")
  have g1: "grows s s1" using grows_body [of s X workStore wus] b by simp
  show ?thesis
    using grows_trans [OF g1 grows_alloc]
    by (cases res) (simp_all add: unstable_rootParams_def b)
qed

lemma grows_getter: "grows s (snd (getter X prop ws ps s))"
  by (cases ps) (simp_all add: getter_def bindE_def postponeWithTracking_def
      throwToInterruptStaticGeneration_def throwE_def grows_emit)

lemma grows_get_property: "grows s (snd (get_property X r key s))"
proof (cases "own_slot s r key")
  case None
  then show ?thesis by (simp add: get_property_def returnE_def grows_refl)
next
  case (Some d)
  show ?thesis
  proof (cases d)
    case (Data v w e)
    then show ?thesis using Some by (simp add: get_property_def returnE_def grows_refl)
  next
    case (Accessor p nm ws ps)
    obtain res s1 where g: "getter X nm ws ps s = (res, s1)" by (cases "getter X nm ws ps s")
    have "grows s s1" using grows_getter [of s X nm ws ps] g by simp
    then show ?thesis
      using Some Accessor by (cases res) (simp_all add: get_property_def bindE_def g returnE_def)
  qed
qed

lemma grows_set_property: "grows s (snd (set_property r key v s))"
  by (simp add: set_property_def returnE_def throwE_def setter_def grows_refl grows_defineOwn
      split: option.split slot.split)

lemma grows_exec: "grows s (exec X a s)"
  by (cases a) (simp_all add: grows_unstable_rootParams grows_createPrerenderParams
      grows_makeErroringRootParams grows_makeUntrackedRootParams grows_get_property
      grows_set_property grows_abort)

lemma grows_run: "grows s (run X acts s)"
  unfolding run_def
proof (induction acts arbitrary: s)
  case Nil
  show ?case by (simp add: grows_refl)
next
  case (Cons a acts)
  show ?case using grows_trans [OF grows_exec Cons.IH] by simp
qed

lemma cache_inv_init: "cache_inv init"
  by (simp add: cache_inv_def init_def stores_def)

lemma cache_inv_run: "cache_inv (run X acts init)"
  using grows_run [of init X acts] cache_inv_init by (simp add: grows_def)



section \<open>Properties of the resolver\<close>

lemma body_Some:
  "unstable_rootParams_body X (Some ws) wus s =
     (case wus of
        None \<Rightarrow> (Inr (rootParams ws), emit (TrackDynamicData ws wus) s)
      | Some (Prerender signal) \<Rightarrow>
          (Inr (rootParams ws),
           emit (TrackDynamicData ws wus)
             (snd (createPrerenderParams X (rootParams ws) ws (Prerender signal) s)))
      | Some (PrerenderPPR tracking) \<Rightarrow>
          (Inl (Postponed (route ws) ''rootParams''),
           emit (Postpone (route ws) ''rootParams'' tracking) s)
      | Some PrerenderLegacy \<Rightarrow>
          (Inl (StaticGenerationInterrupted ''rootParams''),
           emit (Interrupt ''rootParams'' ws PrerenderLegacy) s)
      | Some Request \<Rightarrow> (Inr (rootParams ws), emit (TrackDynamicData ws wus) s)
      | Some Cache \<Rightarrow> (Inr (rootParams ws), emit (TrackDynamicData ws wus) s)
      | Some UnstableCache \<Rightarrow> (Inr (rootParams ws), emit (TrackDynamicData ws wus) s))"
  by (simp add: unstable_rootParams_body_def dispatch_def bindE_def returnE_def throwE_def
      postponeWithTracking_def throwToInterruptStaticGeneration_def
      trackDynamicDataInDynamicRender_def split: option.split WorkUnitStore.split)

lemma body_None:
  "unstable_rootParams_body X None wus s =
     (Inl (InvariantError ''Missing workStore in unstable_rootParams''), s)"
  by (simp add: unstable_rootParams_body_def throwE_def)

lemma body_returns_iff:
  "(\<exists>v. fst (unstable_rootParams_body X workStore wus s) = Inr v) \<longleftrightarrow>
     workStore \<noteq> None \<and> (\<forall>tracking. wus \<noteq> Some (PrerenderPPR tracking)) \<and>
     wus \<noteq> Some PrerenderLegacy"
  by (cases workStore)
     (auto simp: body_None body_Some split: option.splits WorkUnitStore.splits)

lemma createPrerenderParams_fresh:
  assumes "cache_inv s"
  shows "fst (createPrerenderParams X P ws ps s)
         < length (promises (snd (createPrerenderParams X P ws ps s)))"
    and "CachedParams (snd (createPrerenderParams X P ws ps s)) P =
         Some (fst (createPrerenderParams X P ws ps s))"
  using assms
  by (auto simp: createPrerenderParams_cases built_def cache_inv_def split: option.splits)


section \<open>Properties of reading and writing\<close>

lemma own_slot_built:
  "own_slot (built P p s) r k =
     (if r = length (promises s) then map_of (own p) k else own_slot s r k)"
  by (auto simp: own_slot_def built_def nth_append)

lemma own_slot_emit: "own_slot (emit e s) r k = own_slot s r k"
  by (simp add: own_slot_def emit_def)

lemma own_slot_alloc:
  "own_slot (snd (alloc p s)) r k =
     (if r = length (promises s) then map_of (own p) k else own_slot s r k)"
  by (auto simp: own_slot_def alloc_def nth_append)

lemma own_slot_defineOwn:
  "own_slot (defineOwn r k d s) r' k' =
     (if r' = r \<and> k' = k \<and> r < length (promises s) then Some d else own_slot s r' k')"
  by (auto simp: own_slot_def defineOwn_def update_conv' nth_list_update)

lemma own_slot_abort: "own_slot (abort signal s) r k = own_slot s r k"
  by (auto simp: own_slot_def abort_def abort_promise_def split: settlement.split)

lemma own_slot_bound: "own_slot s r k = Some d \<Longrightarrow> r < length (promises s)"
  by (simp add: own_slot_def split: if_splits)

lemma getter_eq:
  "getter X key ws ps s = (Inl (trap_error X key ws ps), emit (trap_event X key ws ps) s)"
  by (cases ps) (simp_all add: getter_def bindE_def postponeWithTracking_def
      throwToInterruptStaticGeneration_def throwE_def trap_error_def trap_event_def)

lemma get_property_cases:
  "get_property X r key s =
     (case own_slot s r key of
        None \<Rightarrow> (Inr Inherited, s)
      | Some (Data v w e) \<Rightarrow> (Inr (Read v), s)
      | Some (Accessor p nm ws ps) \<Rightarrow>
          (Inl (trap_error X nm ws ps), emit (trap_event X nm ws ps) s))"
  by (simp add: get_property_def returnE_def bindE_def getter_eq split: option.split slot.split)

lemma own_slot_get_property: "own_slot (snd (get_property X r key s)) r' k' = own_slot s r' k'"
  by (simp add: get_property_cases own_slot_emit split: option.split slot.split)

lemma own_slot_makeErroringRootParams_miss:
  assumes "CachedParams s P = None"
  shows "own_slot (snd (makeErroringRootParams X P fb ws ps s)) r k =
     (if r = length (promises s)
      then (if k \<in> set (Object_keys P) \<and> k \<notin> wellKnownProperties X
            then Some (if k \<in> fb then Accessor r k ws ps
                       else Data (get_param P k) True True)
            else None)
      else own_slot s r k)"
  using assms
  by (simp add: makeErroringRootParams_miss own_slot_built map_of_fold_erroring_own)

lemma own_slot_makeUntrackedRootParams_miss:
  assumes "CachedParams s P = None"
  shows "own_slot (snd (makeUntrackedRootParams X P s)) r k =
     (if r = length (promises s)
      then (if k \<in> set (Object_keys P) \<and> k \<notin> wellKnownProperties X
            then Some (Data (get_param P k) True True)
            else None)
      else own_slot s r k)"
  using assms
  by (simp add: makeUntrackedRootParams_miss own_slot_built map_of_fold_untracked_own)

lemma resolved_frame:
  "(\<And>k. own_slot s' r k = own_slot s r k) \<Longrightarrow> resolved s r key \<Longrightarrow> resolved s' r key"
  by (simp add: resolved_def)

lemma own_slot_createPrerenderParams:
  "r < length (promises s) \<Longrightarrow>
   own_slot (snd (createPrerenderParams X P ws ps s)) r k = own_slot s r k"
  by (simp add: createPrerenderParams_cases own_slot_built split: option.split)

lemma own_slot_makeErroringRootParams:
  "r < length (promises s) \<Longrightarrow>
   own_slot (snd (makeErroringRootParams X P fb ws ps s)) r k = own_slot s r k"
  by (simp add: makeErroringRootParams_cases own_slot_built split: option.split)

lemma own_slot_makeUntrackedRootParams:
  "r < length (promises s) \<Longrightarrow>
   own_slot (snd (makeUntrackedRootParams X P s)) r k = own_slot s r k"
  by (simp add: makeUntrackedRootParams_cases own_slot_built split: option.split)

lemma own_slot_body:
  "r < length (promises s) \<Longrightarrow>
   own_slot (snd (unstable_rootParams_body X workStore wus s)) r k = own_slot s r k"
  by (cases workStore)
     (simp_all add: body_None body_Some own_slot_emit own_slot_createPrerenderParams
      split: option.split WorkUnitStore.split)

lemma own_slot_unstable_rootParams:
  assumes "r < length (promises s)"
  shows "own_slot (snd (unstable_rootParams X workStore wus s)) r k = own_slot s r k"
proof -
  obtain res s1 where b: "unstable_rootParams_body X workStore wus s = (res, s1)"
    by (cases "unstable_rootParams_body X workStore wus s")
  have "grows s s1" using grows_body [of s X workStore wus] b by simp
  then have len: "r \<noteq> length (promises s1)" using assms by (simp add: grows_def)
  have "own_slot s1 r k = own_slot s r k"
    using own_slot_body [OF assms, of X workStore wus k] b by simp
  then show ?thesis
    using len by (cases res) (simp_all add: unstable_rootParams_def b own_slot_alloc)
qed

lemma resolved_set_property: "resolved s r key \<Longrightarrow> resolved (snd (set_property r' k' v s)) r key"
  by (auto simp: resolved_def set_property_def returnE_def throwE_def setter_def
      own_slot_defineOwn split: option.split slot.split)

lemma resolved_exec:
  assumes "resolved s r key"
  shows "resolved (exec X a s) r key"
proof -
  have len: "r < length (promises s)"
    using assms by (auto simp: resolved_def dest: own_slot_bound)
  show ?thesis
  proof (cases a)
    case (CallRootParams workStore wus)
    then show ?thesis
      using assms len by (simp add: resolved_def own_slot_unstable_rootParams)
  next
    case (CallCreatePrerenderParams P ws ps)
    then show ?thesis
      using assms len by (simp add: resolved_def own_slot_createPrerenderParams)
  next
    case (CallMakeErroring P fb ws ps)
    then show ?thesis
      using assms len by (simp add: resolved_def own_slot_makeErroringRootParams)
  next
    case (CallMakeUntracked P)
    then show ?thesis
      using assms len by (simp add: resolved_def own_slot_makeUntrackedRootParams)
  next
    case (ReadProperty r' k')
    then show ?thesis using assms by (simp add: resolved_def own_slot_get_property)
  next
    case (WriteProperty r' k' v)
    then show ?thesis using assms by (simp add: resolved_set_property)
  next
    case (FireAbort signal)
    then show ?thesis using assms by (simp add: resolved_def own_slot_abort)
  qed
qed

lemma resolved_run: "resolved s r key \<Longrightarrow> resolved (run X acts s) r key"
  unfolding run_def by (induction acts arbitrary: s) (simp_all add: resolved_exec)

lemma trapped_reads:
  "own_slot s w key = Some (Accessor p nm ws ps) \<Longrightarrow>
   run X (replicate n (ReadProperty w key)) s =
     s\<lparr>events := events s @ replicate n (trap_event X nm ws ps)\<rparr>"
proof (induction n arbitrary: s)
  case 0
  show ?case by (simp add: run_def)
next
  case (Suc n)
  let ?s1 = "emit (trap_event X nm ws ps) s"
  have step: "exec X (ReadProperty w key) s = ?s1"
    using Suc.prems by (simp add: get_property_cases)
  have slot1: "own_slot ?s1 w key = Some (Accessor p nm ws ps)"
    using Suc.prems by (simp add: own_slot_emit)
  have "run X (replicate (Suc n) (ReadProperty w key)) s
        = run X (replicate n (ReadProperty w key)) ?s1"
    using step by (simp add: run_def)
  also have "\<dots> = ?s1\<lparr>events := events ?s1 @ replicate n (trap_event X nm ws ps)\<rparr>"
    by (rule Suc.IH [OF slot1])
  finally show ?case by (simp add: emit_def replicate_app_Cons_same)
qed

lemma interruptions_built: "interruptions (built P p s) = interruptions s"
  by (simp add: interruptions_def built_def)

lemma interruptions_createPrerenderParams:
  "interruptions (snd (createPrerenderParams X P ws ps s)) = interruptions s"
  by (simp add: createPrerenderParams_cases interruptions_built split: option.split)

lemma createPrerenderParams_known:
  assumes "\<forall>fb. fallbackRouteParams ws = Some fb \<longrightarrow> fb \<inter> set (Object_keys P) = {}"
  shows "createPrerenderParams X P ws ps s = makeUntrackedRootParams X P s"
proof (cases "fallbackRouteParams ws")
  case None
  then show ?thesis by (simp add: createPrerenderParams_def)
next
  case (Some fb)
  then have "\<not> hasSomeFallbackParams fb (Object_keys P)"
    using assms by (auto simp: hasSomeFallbackParams_iff)
  then show ?thesis using Some by (simp add: createPrerenderParams_def)
qed

section \<open>Properties of the hanging future\<close>

lemma settled_built:
  "settled (built P p s) r =
     (if r = length (promises s) then Some (settlement p) else settled s r)"
  by (auto simp: settled_def built_def nth_append)

lemma settled_emit: "settled (emit e s) r = settled s r"
  by (simp add: settled_def emit_def)

lemma settled_alloc:
  "settled (snd (alloc p s)) r =
     (if r = length (promises s) then Some (settlement p) else settled s r)"
  by (auto simp: settled_def alloc_def nth_append)

lemma settled_defineOwn: "settled (defineOwn r' k d s) r = settled s r"
  by (auto simp: settled_def defineOwn_def nth_list_update)

lemma settled_bound: "settled s r = Some x \<Longrightarrow> r < length (promises s)"
  by (simp add: settled_def split: if_splits)

lemma settled_createPrerenderParams:
  "r < length (promises s) \<Longrightarrow>
   settled (snd (createPrerenderParams X P ws ps s)) r = settled s r"
  by (simp add: createPrerenderParams_cases settled_built split: option.split)

lemma settled_makeErroringRootParams:
  "r < length (promises s) \<Longrightarrow>
   settled (snd (makeErroringRootParams X P fb ws ps s)) r = settled s r"
  by (simp add: makeErroringRootParams_cases settled_built split: option.split)

lemma settled_makeUntrackedRootParams:
  "r < length (promises s) \<Longrightarrow>
   settled (snd (makeUntrackedRootParams X P s)) r = settled s r"
  by (simp add: makeUntrackedRootParams_cases settled_built split: option.split)

lemma settled_body:
  "r < length (promises s) \<Longrightarrow>
   settled (snd (unstable_rootParams_body X workStore wus s)) r = settled s r"
  by (cases workStore)
     (simp_all add: body_None body_Some settled_emit settled_createPrerenderParams
      split: option.split WorkUnitStore.split)

lemma settled_unstable_rootParams:
  assumes "r < length (promises s)"
  shows "settled (snd (unstable_rootParams X workStore wus s)) r = settled s r"
proof -
  obtain res s1 where b: "unstable_rootParams_body X workStore wus s = (res, s1)"
    by (cases "unstable_rootParams_body X workStore wus s")
  have "grows s s1" using grows_body [of s X workStore wus] b by simp
  then have len: "r \<noteq> length (promises s1)" using assms by (simp add: grows_def)
  have "settled s1 r = settled s r"
    using settled_body [OF assms, of X workStore wus] b by simp
  then show ?thesis
    using len by (cases res) (simp_all add: unstable_rootParams_def b settled_alloc)
qed

lemma settled_get_property: "settled (snd (get_property X r' key s)) r = settled s r"
  by (simp add: get_property_cases settled_emit split: option.split slot.split)

lemma settled_set_property: "settled (snd (set_property r' key v s)) r = settled s r"
  by (simp add: set_property_def returnE_def throwE_def setter_def settled_defineOwn
      split: option.split slot.split)

lemma settled_abort:
  "settled (abort signal s) r =
     (case settled s r of
        None \<Rightarrow> None
      | Some (Hanging sg expression) \<Rightarrow>
          Some (if sg = signal then Rejected (HangingPromiseRejection expression)
                else Hanging sg expression)
      | Some (Fulfilled v) \<Rightarrow> Some (Fulfilled v)
      | Some (Rejected e) \<Rightarrow> Some (Rejected e))"
  by (simp add: settled_def abort_def abort_promise_def split: settlement.split)

lemma hanging_exec:
  assumes "settled s r = Some (Hanging signal expression)" and "a \<noteq> FireAbort signal"
  shows "settled (exec X a s) r = Some (Hanging signal expression)"
proof -
  have len: "r < length (promises s)" using assms(1) by (rule settled_bound)
  show ?thesis
    using assms len
    by (cases a)
       (simp_all add: settled_unstable_rootParams settled_createPrerenderParams
        settled_makeErroringRootParams settled_makeUntrackedRootParams settled_get_property
        settled_set_property settled_abort)
qed

lemma hanging_run:
  "settled s r = Some (Hanging signal expression) \<Longrightarrow> FireAbort signal \<notin> set acts \<Longrightarrow>
   settled (run X acts s) r = Some (Hanging signal expression)"
  unfolding run_def by (induction acts arbitrary: s) (auto simp: hanging_exec)

text \<open>
  The hanging future of \<^verbatim>\<open>createPrerenderParams\<close>: built for a ParamSet with a placeholder
  key under the dynamicIO prerender, it is pending on the render's signal, stays so
  through every run in which that signal does not fire, and is rejected when it fires.
\<close>

lemma hanging_future_settles_on_abort_only:
  assumes "CachedParams s P = None"
    and "fallbackRouteParams ws = Some fb" and "fb \<inter> set (Object_keys P) \<noteq> {}"
    and "createPrerenderParams X P ws (Prerender signal) s = (w, s')"
    and "FireAbort signal \<notin> set acts"
  shows "settled (run X acts s') w = Some (Hanging signal ''`params`'')"
    and "settled (abort signal (run X acts s')) w =
           Some (Rejected (HangingPromiseRejection ''`params`''))"
proof -
  have "hasSomeFallbackParams fb (Object_keys P)"
    using assms(3) by (auto simp: hasSomeFallbackParams_iff)
  then have "settled s' w = Some (Hanging signal ''`params`'')"
    using assms(1,2,4)
    by (auto simp: createPrerenderParams_miss create_promise_def settled_built)
  then show "settled (run X acts s') w = Some (Hanging signal ''`params`'')"
    using assms(5) by (rule hanging_run)
  then show "settled (abort signal (run X acts s')) w =
           Some (Rejected (HangingPromiseRejection ''`params`''))"
    by (simp add: settled_abort)
qed

section \<open>The identity cache\<close>

text \<open>
  Claim C1, as the code has it. Within one render (the state reached from the initial one
  by any actions), once \<^verbatim>\<open>createPrerenderParams\<close> has resolved a ParamSet \<open>P\<close> to a wrapper
  \<open>w1\<close> through any of its paths (untracked, erroring, hanging future), every later
  resolution of \<open>P\<close>, after any further actions and through any path or builder, under any
  work store and render unit, returns the identical wrapper \<open>w1\<close> and leaves the state as it
  is; the cache binds \<open>P\<close> to \<open>w1\<close>, the trace holds exactly one store for \<open>P\<close> and at
  most one for any ParamSet.
  The identity is that of the builders' wrappers: the resolver itself is an \<^verbatim>\<open>async\<close>
  function and returns a new promise at every call.
\<close>

theorem createPrerenderParams_identity_stable:
  "(let s = run X acts init;
        (w1, s1) = createPrerenderParams X P ws1 ps1 s;
        s2 = run X acts' s1
    in createPrerenderParams X P ws2 ps2 s2 = (w1, s2) \<and>
       makeErroringRootParams X P fb ws2 ps2 s2 = (w1, s2) \<and>
       makeUntrackedRootParams X P s2 = (w1, s2) \<and>
       CachedParams s2 P = Some w1 \<and>
       stores P s2 = 1 \<and>
       (\<forall>Q. stores Q s2 \<le> 1))"
proof -
  define s where "s = run X acts init"
  obtain w1 s1 where c: "createPrerenderParams X P ws1 ps1 s = (w1, s1)"
    by (cases "createPrerenderParams X P ws1 ps1 s")
  define s2 where "s2 = run X acts' s1"
  have inv: "cache_inv s" unfolding s_def by (rule cache_inv_run)
  have g1: "grows s s1" using grows_createPrerenderParams [of s X P ws1 ps1] c by simp
  have cached1: "CachedParams s1 P = Some w1"
    using c by (auto simp: createPrerenderParams_cases built_def split: option.splits)
  have g2: "grows s1 s2" unfolding s2_def by (rule grows_run)
  have cached2: "CachedParams s2 P = Some w1" using g2 cached1 by (simp add: grows_def)
  have inv2: "cache_inv s2" using inv g1 g2 by (simp add: grows_def)
  have st: "stores P s2 = 1" using inv2 cached2 by (simp add: cache_inv_def)
  have once: "stores Q s2 \<le> 1" for Q
    using inv2 by (cases "CachedParams s2 Q") (simp_all add: cache_inv_def)
  show ?thesis
    using c cached2 st once
    by (simp add: s_def [symmetric] s2_def [symmetric] createPrerenderParams_hit
        makeErroringRootParams_hit makeUntrackedRootParams_hit)
qed

text \<open>
  An instance: the hanging future built for the fallback shell under the dynamicIO
  prerender is the wrapper that the untracked and the erroring paths return afterwards.
\<close>

theorem createPrerenderParams_identity_stable_witness:
  "(let s = run sample_externals [] init;
        (w1, s1) = createPrerenderParams sample_externals en_us shell_store (Prerender 3) s;
        s2 = run sample_externals [CallRootParams (Some known_store) None] s1
    in createPrerenderParams sample_externals en_us known_store (PrerenderPPR 5) s2 = (w1, s2) \<and>
       makeErroringRootParams sample_externals en_us {''lang''} known_store (PrerenderPPR 5) s2
         = (w1, s2) \<and>
       makeUntrackedRootParams sample_externals en_us s2 = (w1, s2) \<and>
       CachedParams s2 en_us = Some w1 \<and>
       stores en_us s2 = 1) \<and>
   fst (createPrerenderParams sample_externals en_us shell_store (Prerender 3) init) = 0"
  using createPrerenderParams_identity_stable [where X = sample_externals and acts = "[]"
      and P = en_us and ?ws1.0 = shell_store and ?ps1.0 = "Prerender 3"
      and acts' = "[CallRootParams (Some known_store) None]" and ?ws2.0 = known_store
      and ?ps2.0 = "PrerenderPPR 5" and fb = "{''lang''}"]
  by (simp add: model_defs sample_defs)

text \<open>
  Claim C1 as stated fails at the resolver: two calls of \<^verbatim>\<open>unstable_rootParams\<close> in the
  same render, for the same fully known ParamSet, return the promises at two different
  addresses, and neither is the cached wrapper at address 0 (dynamicIO prerender); the same
  holds with no render unit.
\<close>

theorem resolver_returns_fresh_promises:
  "fst (unstable_rootParams sample_externals (Some known_store) (Some (Prerender 3)) init) = 1 \<and>
   fst (unstable_rootParams sample_externals (Some known_store) (Some (Prerender 3))
         (snd (unstable_rootParams sample_externals (Some known_store) (Some (Prerender 3))
                init))) = 2 \<and>
   CachedParams
     (snd (unstable_rootParams sample_externals (Some known_store) (Some (Prerender 3)) init))
     en_us = Some 0 \<and>
   fst (unstable_rootParams sample_externals (Some known_store) None init) = 0 \<and>
   fst (unstable_rootParams sample_externals (Some known_store) None
         (snd (unstable_rootParams sample_externals (Some known_store) None init))) = 1"
  by (simp add: model_defs sample_defs)

section \<open>The resolver under the dynamicIO prerender\<close>

text \<open>
  Claim C2 at a failing input: the root parameters \<^verbatim>\<open>{lang: "en", locale: "us"}\<close> with
  \<^verbatim>\<open>lang\<close> a placeholder, resolved under the dynamicIO prerender with abort signal 3 in the
  initial state. \<^verbatim>\<open>createPrerenderParams\<close> builds the hanging future at address 0 and
  stores it, but the resolver drops it: the promise it returns, at address 1, is already
  fulfilled with the ParamSet although the signal has not fired, and the dynamic access is
  recorded.
\<close>

theorem dynamic_prerender_drops_hanging_promise:
  "(let (r, s') = unstable_rootParams X (Some shell_store) (Some (Prerender 3)) init
    in r = 1 \<and>
       settlement (promises s' ! r) = Fulfilled en_us \<and>
       CachedParams s' en_us = Some 0 \<and>
       settlement (promises s' ! 0) = Hanging 3 ''`params`'' \<and>
       events s' = [CacheSet en_us 0, TrackDynamicData shell_store (Some (Prerender 3))])"
  by (simp add: model_defs sample_defs)


section \<open>What the resolver returns\<close>

text \<open>
  Claim C3. In a state of a render, with an active work store and a render unit whose
  branch does not diverge (no render unit, the dynamicIO prerender, the request and the
  cache units: every unit but the PPR and the legacy prerender), the body of
  \<^verbatim>\<open>unstable_rootParams\<close> returns the work store's \<^verbatim>\<open>rootParams\<close> object itself and the
  promise handed to the caller is a new promise fulfilled with that object, with no own
  property. Under the dynamicIO prerender the wrapper that \<^verbatim>\<open>createPrerenderParams\<close>
  builds or finds sits in the cache and is a different promise from the one returned.
\<close>

theorem resolver_fulfils_with_rootParams:
  assumes "s = run X acts init"
    and "\<forall>tracking. workUnitStore \<noteq> Some (PrerenderPPR tracking)"
    and "workUnitStore \<noteq> Some PrerenderLegacy"
    and "unstable_rootParams X (Some ws) workUnitStore s = (r, s')"
  shows "fst (unstable_rootParams_body X (Some ws) workUnitStore s) = Inr (rootParams ws) \<and>
         r < length (promises s') \<and>
         promises s' ! r = \<lparr>settlement = Fulfilled (rootParams ws), own = []\<rparr> \<and>
         (\<forall>signal. workUnitStore = Some (Prerender signal) \<longrightarrow>
            CachedParams s' (rootParams ws) =
              Some (fst (createPrerenderParams X (rootParams ws) ws (Prerender signal) s)) \<and>
            r \<noteq> fst (createPrerenderParams X (rootParams ws) ws (Prerender signal) s))"
proof -
  have inv: "cache_inv s" unfolding assms(1) by (rule cache_inv_run)
  obtain res s1 where b: "unstable_rootParams_body X (Some ws) workUnitStore s = (res, s1)"
    by (cases "unstable_rootParams_body X (Some ws) workUnitStore s")
  have res: "res = Inr (rootParams ws)"
    using b assms(2,3) by (auto simp: body_Some split: option.splits WorkUnitStore.splits)
  have r: "r = length (promises s1)"
    and s': "s' = s1\<lparr>promises :=
                     promises s1 @ [\<lparr>settlement = Fulfilled (rootParams ws), own = []\<rparr>]\<rparr>"
    using assms(4) b res by (auto simp: unstable_rootParams_def alloc_def)
  have dyn: "CachedParams s' (rootParams ws) =
                Some (fst (createPrerenderParams X (rootParams ws) ws (Prerender signal) s)) \<and>
              r \<noteq> fst (createPrerenderParams X (rootParams ws) ws (Prerender signal) s)"
    if "workUnitStore = Some (Prerender signal)" for signal
  proof -
    have "s1 = emit (TrackDynamicData ws workUnitStore)
             (snd (createPrerenderParams X (rootParams ws) ws (Prerender signal) s))"
      using b that by (auto simp: body_Some)
    then show ?thesis
      using createPrerenderParams_fresh [OF inv, of X "rootParams ws" ws "Prerender signal"]
      by (simp add: r s' emit_def)
  qed
  show ?thesis using b res dyn by (simp add: r s')
qed

text \<open>
  Instances in each mode whose branch returns. Under the dynamicIO prerender with a
  placeholder key the hanging future is promise 0 and the caller receives promise 1,
  fulfilled with the ParamSet; with no render unit and under the request, cache and
  unstable-cache units the caller receives promise 0, fulfilled with the ParamSet.
\<close>

theorem resolver_fulfils_with_rootParams_witness:
  "unstable_rootParams sample_externals (Some shell_store) (Some (Prerender 3)) init =
     (1, \<lparr>promises = [\<lparr>settlement = Hanging 3 ''`params`'', own = []\<rparr>,
                      \<lparr>settlement = Fulfilled en_us, own = []\<rparr>],
          CachedParams = (\<lambda>_. None)(en_us \<mapsto> 0),
          events = [CacheSet en_us 0, TrackDynamicData shell_store (Some (Prerender 3))]\<rparr>) \<and>
   fst (createPrerenderParams sample_externals en_us shell_store (Prerender 3) init) = 0 \<and>
   fst (unstable_rootParams_body sample_externals (Some shell_store) (Some (Prerender 3)) init)
     = Inr en_us \<and>
   unstable_rootParams sample_externals (Some shell_store) None init =
     (0, \<lparr>promises = [\<lparr>settlement = Fulfilled en_us, own = []\<rparr>],
          CachedParams = (\<lambda>_. None),
          events = [TrackDynamicData shell_store None]\<rparr>) \<and>
   fst (unstable_rootParams_body sample_externals (Some shell_store) None init) = Inr en_us \<and>
   unstable_rootParams sample_externals (Some shell_store) (Some Request) init =
     (0, \<lparr>promises = [\<lparr>settlement = Fulfilled en_us, own = []\<rparr>],
          CachedParams = (\<lambda>_. None),
          events = [TrackDynamicData shell_store (Some Request)]\<rparr>) \<and>
   fst (unstable_rootParams_body sample_externals (Some shell_store) (Some Request) init)
     = Inr en_us \<and>
   unstable_rootParams sample_externals (Some shell_store) (Some Cache) init =
     (0, \<lparr>promises = [\<lparr>settlement = Fulfilled en_us, own = []\<rparr>],
          CachedParams = (\<lambda>_. None),
          events = [TrackDynamicData shell_store (Some Cache)]\<rparr>) \<and>
   fst (unstable_rootParams_body sample_externals (Some shell_store) (Some Cache) init)
     = Inr en_us \<and>
   unstable_rootParams sample_externals (Some shell_store) (Some UnstableCache) init =
     (0, \<lparr>promises = [\<lparr>settlement = Fulfilled en_us, own = []\<rparr>],
          CachedParams = (\<lambda>_. None),
          events = [TrackDynamicData shell_store (Some UnstableCache)]\<rparr>) \<and>
   fst (unstable_rootParams_body sample_externals (Some shell_store) (Some UnstableCache) init)
     = Inr en_us"
  using resolver_fulfils_with_rootParams [where X = sample_externals and acts = "[]"
      and s = init and ws = shell_store and workUnitStore = "Some (Prerender 3)" and r = 1
      and s' = "\<lparr>promises = [\<lparr>settlement = Hanging 3 ''`params`'', own = []\<rparr>,
                      \<lparr>settlement = Fulfilled en_us, own = []\<rparr>],
          CachedParams = (\<lambda>_. None)(en_us \<mapsto> 0),
          events = [CacheSet en_us 0, TrackDynamicData shell_store (Some (Prerender 3))]\<rparr>"]
    resolver_fulfils_with_rootParams [where X = sample_externals and acts = "[]"
      and s = init and ws = shell_store and workUnitStore = None and r = 0
      and s' = "\<lparr>promises = [\<lparr>settlement = Fulfilled en_us, own = []\<rparr>],
          CachedParams = (\<lambda>_. None), events = [TrackDynamicData shell_store None]\<rparr>"]
    resolver_fulfils_with_rootParams [where X = sample_externals and acts = "[]"
      and s = init and ws = shell_store and workUnitStore = "Some Request" and r = 0
      and s' = "\<lparr>promises = [\<lparr>settlement = Fulfilled en_us, own = []\<rparr>],
          CachedParams = (\<lambda>_. None),
          events = [TrackDynamicData shell_store (Some Request)]\<rparr>"]
    resolver_fulfils_with_rootParams [where X = sample_externals and acts = "[]"
      and s = init and ws = shell_store and workUnitStore = "Some Cache" and r = 0
      and s' = "\<lparr>promises = [\<lparr>settlement = Fulfilled en_us, own = []\<rparr>],
          CachedParams = (\<lambda>_. None),
          events = [TrackDynamicData shell_store (Some Cache)]\<rparr>"]
    resolver_fulfils_with_rootParams [where X = sample_externals and acts = "[]"
      and s = init and ws = shell_store and workUnitStore = "Some UnstableCache" and r = 0
      and s' = "\<lparr>promises = [\<lparr>settlement = Fulfilled en_us, own = []\<rparr>],
          CachedParams = (\<lambda>_. None),
          events = [TrackDynamicData shell_store (Some UnstableCache)]\<rparr>"]
  by (simp add: model_defs sample_defs)

text \<open>
  Claim C4. Under the PPR prerender the resolver calls \<^verbatim>\<open>postponeWithTracking\<close> with the
  route, the API name \<^verbatim>\<open>'rootParams'\<close> and the tracking handle, and under the legacy
  prerender it calls \<^verbatim>\<open>throwToInterruptStaticGeneration\<close> with the API name, the work
  store (which holds the route) and the render unit. In both modes that call is the only
  event of the resolution, no builder runs, and the promise returned is rejected with what
  the primitive threw: the access is interrupted as a whole, before anything is returned.
\<close>

theorem eager_dispatch:
  "unstable_rootParams X (Some ws) (Some (PrerenderPPR tracking)) s =
     (length (promises s),
      s\<lparr>promises :=
           promises s @ [\<lparr>settlement = Rejected (Postponed (route ws) ''rootParams''), own = []\<rparr>],
        events := events s @ [Postpone (route ws) ''rootParams'' tracking]\<rparr>) \<and>
   unstable_rootParams X (Some ws) (Some PrerenderLegacy) s =
     (length (promises s),
      s\<lparr>promises :=
           promises s @ [\<lparr>settlement = Rejected (StaticGenerationInterrupted ''rootParams''),
                          own = []\<rparr>],
        events := events s @ [Interrupt ''rootParams'' ws PrerenderLegacy]\<rparr>)"
  by (simp add: unstable_rootParams_def body_Some alloc_def emit_def)


text \<open>
  Claim C6. With no work store the resolver fails with the invariant error
  \<^verbatim>\<open>'Missing workStore in unstable_rootParams'\<close> at once: nothing is recorded, built or
  cached, and the promise returned is rejected with that error. With a work store the
  body never throws an invariant error, whatever the render unit.
\<close>

theorem missing_workStore:
  "unstable_rootParams X None workUnitStore s =
     (length (promises s),
      s\<lparr>promises := promises s @
           [\<lparr>settlement = Rejected (InvariantError ''Missing workStore in unstable_rootParams''),
             own = []\<rparr>]\<rparr>) \<and>
   (\<forall>ws message. fst (unstable_rootParams_body X (Some ws) workUnitStore s)
       \<noteq> Inl (InvariantError message))"
  by (simp add: unstable_rootParams_def body_None body_Some alloc_def
      split: option.split WorkUnitStore.split)


section \<open>Recording the dynamic access\<close>

text \<open>
  Claim C9, as the code has it. The call of \<^verbatim>\<open>trackDynamicDataInDynamicRender\<close> follows the
  dispatch in the branches that return from it: with no render unit, under the request and
  cache units, and under the dynamicIO prerender (after the events of
  \<^verbatim>\<open>createPrerenderParams\<close>). Under the PPR and the legacy prerender the suspend or abort
  primitive does not return and the trace of the resolution ends with its event: no dynamic
  access is recorded.
\<close>

theorem dynamic_access_recording:
  "events (snd (unstable_rootParams X (Some ws) None s)) =
     events s @ [TrackDynamicData ws None] \<and>
   events (snd (unstable_rootParams X (Some ws) (Some Request) s)) =
     events s @ [TrackDynamicData ws (Some Request)] \<and>
   events (snd (unstable_rootParams X (Some ws) (Some Cache) s)) =
     events s @ [TrackDynamicData ws (Some Cache)] \<and>
   events (snd (unstable_rootParams X (Some ws) (Some UnstableCache) s)) =
     events s @ [TrackDynamicData ws (Some UnstableCache)] \<and>
   events (snd (unstable_rootParams X (Some ws) (Some (Prerender signal)) s)) =
     events (snd (createPrerenderParams X (rootParams ws) ws (Prerender signal) s)) @
       [TrackDynamicData ws (Some (Prerender signal))] \<and>
   events (snd (unstable_rootParams X (Some ws) (Some (PrerenderPPR tracking)) s)) =
     events s @ [Postpone (route ws) ''rootParams'' tracking] \<and>
   events (snd (unstable_rootParams X (Some ws) (Some PrerenderLegacy) s)) =
     events s @ [Interrupt ''rootParams'' ws PrerenderLegacy]"
  by (simp add: unstable_rootParams_def body_Some alloc_def emit_def)


text \<open>
  Claim C9 as stated fails under the legacy prerender: the resolution records the abort
  and nothing after it.
\<close>

theorem legacy_prerender_records_no_dynamic_access:
  "events (snd (unstable_rootParams sample_externals (Some known_store) (Some PrerenderLegacy)
      init)) = [Interrupt ''rootParams'' known_store PrerenderLegacy]"
  by (simp add: model_defs sample_defs)

section \<open>The fully known fast path\<close>

text \<open>
  Claim C5, as the code has it. Let no key of the ParamSet \<open>P\<close> be a placeholder (the
  placeholder set is absent, empty, or disjoint from the keys of \<open>P\<close>). Then
  \<^verbatim>\<open>createPrerenderParams\<close> is the untracked builder, under every render unit; for a
  ParamSet not yet in the cache it yields a new wrapper that is already fulfilled with \<open>P\<close>
  and carries every key of \<open>P\<close> but the reserved names as a plain value, its only event
  being the store into the cache: no suspend, no abort. The resolver, under every render
  unit but the PPR and the legacy prerender, returns a promise already fulfilled with \<open>P\<close>
  and calls neither primitive.
\<close>

theorem fully_known_fast_path:
  assumes "\<forall>fb. fallbackRouteParams ws = Some fb \<longrightarrow> fb \<inter> set (Object_keys P) = {}"
  shows "createPrerenderParams X P ws ps s = makeUntrackedRootParams X P s \<and>
         (CachedParams s P = None \<longrightarrow>
            (let (w, s') = createPrerenderParams X P ws ps s
             in w = length (promises s) \<and>
                settlement (promises s' ! w) = Fulfilled P \<and>
                (\<forall>k. own_slot s' w k =
                   (if k \<in> set (Object_keys P) \<and> k \<notin> wellKnownProperties X
                    then Some (Data (get_param P k) True True) else None)) \<and>
                events s' = events s @ [CacheSet P w] \<and>
                interruptions s' = interruptions s)) \<and>
         (P = rootParams ws \<and> (\<forall>tracking. workUnitStore \<noteq> Some (PrerenderPPR tracking)) \<and>
          workUnitStore \<noteq> Some PrerenderLegacy \<longrightarrow>
            (let (r, s') = unstable_rootParams X (Some ws) workUnitStore s
             in r < length (promises s') \<and>
                settlement (promises s' ! r) = Fulfilled P \<and>
                interruptions s' = interruptions s))"
proof -
  have eq: "createPrerenderParams X P ws ps s = makeUntrackedRootParams X P s"
    using assms by (rule createPrerenderParams_known)
  have miss: "(let (w, s') = createPrerenderParams X P ws ps s
             in w = length (promises s) \<and>
                settlement (promises s' ! w) = Fulfilled P \<and>
                (\<forall>k. own_slot s' w k =
                   (if k \<in> set (Object_keys P) \<and> k \<notin> wellKnownProperties X
                    then Some (Data (get_param P k) True True) else None)) \<and>
                events s' = events s @ [CacheSet P w] \<and>
                interruptions s' = interruptions s)"
    if c: "CachedParams s P = None"
  proof -
    have slots: "own_slot (snd (makeUntrackedRootParams X P s)) (length (promises s)) k =
        (if k \<in> set (Object_keys P) \<and> k \<notin> wellKnownProperties X
         then Some (Data (get_param P k) True True) else None)" for k
      using c by (simp add: own_slot_makeUntrackedRootParams_miss)
    show ?thesis
      using slots
      by (simp add: eq makeUntrackedRootParams_miss [OF c] interruptions_built)
         (simp add: built_def)
  qed
  have res: "(let (r, s') = unstable_rootParams X (Some ws) workUnitStore s
             in r < length (promises s') \<and>
                settlement (promises s' ! r) = Fulfilled P \<and>
                interruptions s' = interruptions s)"
    if "P = rootParams ws" "\<forall>tracking. workUnitStore \<noteq> Some (PrerenderPPR tracking)"
      "workUnitStore \<noteq> Some PrerenderLegacy"
  proof -
    show ?thesis
      using that interruptions_createPrerenderParams [of X P ws _ s]
      by (auto simp: unstable_rootParams_def body_Some alloc_def emit_def interruptions_def
          split: option.split WorkUnitStore.split)
  qed
  show ?thesis using eq miss res by blast
qed

text \<open>
  An instance: \<^verbatim>\<open>{lang: "en", locale: "us"}\<close> with no placeholder set. The builder's wrapper
  carries both pairs; the resolver's promise is fulfilled with the ParamSet.
\<close>

theorem fully_known_fast_path_witness:
  "createPrerenderParams sample_externals en_us known_store (PrerenderPPR 5) init =
     (0, \<lparr>promises = [\<lparr>settlement = Fulfilled en_us,
                       own = [(''lang'', Data (Str ''en'') True True),
                              (''locale'', Data (Str ''us'') True True)]\<rparr>],
          CachedParams = (\<lambda>_. None)(en_us \<mapsto> 0),
          events = [CacheSet en_us 0]\<rparr>) \<and>
   unstable_rootParams sample_externals (Some known_store) None init =
     (0, \<lparr>promises = [\<lparr>settlement = Fulfilled en_us, own = []\<rparr>],
          CachedParams = (\<lambda>_. None),
          events = [TrackDynamicData known_store None]\<rparr>) \<and>
   fallbackRouteParams known_store = None"
  using fully_known_fast_path [where X = sample_externals and ws = known_store and P = en_us
      and ps = "PrerenderPPR 5" and s = init and workUnitStore = None]
  by (simp add: model_defs sample_defs)

text \<open>
  Claim C5 as stated fails for the resolver under the PPR prerender: with no placeholder
  at all it calls the suspend primitive and the promise it returns is rejected.
\<close>

theorem ppr_prerender_suspends_fully_known_params:
  "events (snd (unstable_rootParams sample_externals (Some known_store) (Some (PrerenderPPR 5))
      init)) = [Postpone ''/[lang]/[locale]'' ''rootParams'' 5] \<and>
   promises (snd (unstable_rootParams sample_externals (Some known_store)
      (Some (PrerenderPPR 5)) init)) =
     [\<lparr>settlement = Rejected (Postponed ''/[lang]/[locale]'' ''rootParams''), own = []\<rparr>] \<and>
   fallbackRouteParams known_store = None"
  by (simp add: model_defs sample_defs)

section \<open>The erroring wrapper\<close>

text \<open>
  Claim C7, as the code has it. Let \<^verbatim>\<open>makeErroringRootParams\<close> build a wrapper \<open>w\<close> for a
  ParamSet that is not yet in the cache, and let \<open>key\<close> be a key of the ParamSet that is
  not a reserved name. If \<open>key\<close> is a placeholder, reading it on \<open>w\<close> records exactly one
  event, tagged with \<^verbatim>\<open>describeStringPropertyAccess('rootParams', key)\<close>: the suspend
  with the route and the tracking handle for a wrapper built under the PPR prerender, the
  abort with the work store and the render unit for one built under the legacy prerender;
  the read throws and yields no value. If \<open>key\<close> is not a placeholder, reading it yields
  the ParamSet's value and the state is unchanged.
\<close>

theorem placeholder_read_traps:
  assumes "CachedParams s P = None"
    and "makeErroringRootParams X P fb ws ps s = (w, s')"
    and "key \<in> set (Object_keys P)"
    and "key \<notin> wellKnownProperties X"
  shows "(key \<in> fb \<and> ps = PrerenderPPR tracking \<longrightarrow>
            get_property X w key s' =
              (Inl (Postponed (route ws) (describeStringPropertyAccess X ''rootParams'' key)),
               emit (Postpone (route ws) (describeStringPropertyAccess X ''rootParams'' key)
                       tracking) s')) \<and>
         (key \<in> fb \<and> ps = PrerenderLegacy \<longrightarrow>
            get_property X w key s' =
              (Inl (StaticGenerationInterrupted
                      (describeStringPropertyAccess X ''rootParams'' key)),
               emit (Interrupt (describeStringPropertyAccess X ''rootParams'' key) ws
                       PrerenderLegacy) s')) \<and>
         (key \<notin> fb \<longrightarrow> get_property X w key s' = (Inr (Read (get_param P key)), s'))"
proof -
  have w: "w = length (promises s)"
    using assms(1,2) by (simp add: makeErroringRootParams_miss)
  have slot: "own_slot s' w key =
      Some (if key \<in> fb then Accessor w key ws ps else Data (get_param P key) True True)"
    using own_slot_makeErroringRootParams_miss [OF assms(1), of X fb ws ps w key] assms(2-4) w
    by simp
  show ?thesis
    by (simp add: get_property_cases slot trap_error_def trap_event_def)
qed

text \<open>
  An instance under the PPR prerender: reading the placeholder \<^verbatim>\<open>lang\<close> suspends, reading
  \<^verbatim>\<open>locale\<close> yields \<^verbatim>\<open>"us"\<close>.
\<close>

theorem placeholder_read_traps_witness:
  "get_property sample_externals 0 ''lang''
     (snd (makeErroringRootParams sample_externals en_us {''lang''} shell_store (PrerenderPPR 5)
        init)) =
     (Inl (Postponed ''/[lang]/[locale]'' ''rootParams.lang''),
      emit (Postpone ''/[lang]/[locale]'' ''rootParams.lang'' 5)
        (snd (makeErroringRootParams sample_externals en_us {''lang''} shell_store
           (PrerenderPPR 5) init))) \<and>
   get_property sample_externals 0 ''locale''
     (snd (makeErroringRootParams sample_externals en_us {''lang''} shell_store (PrerenderPPR 5)
        init)) =
     (Inr (Read (Str ''us'')),
      snd (makeErroringRootParams sample_externals en_us {''lang''} shell_store (PrerenderPPR 5)
        init)) \<and>
   fst (makeErroringRootParams sample_externals en_us {''lang''} shell_store (PrerenderPPR 5)
        init) = 0"
  using placeholder_read_traps [where X = sample_externals and s = init and P = en_us
      and fb = "{''lang''}" and ws = shell_store and ps = "PrerenderPPR 5" and w = 0
      and s' = "snd (makeErroringRootParams sample_externals en_us {''lang''} shell_store
                  (PrerenderPPR 5) init)"
      and key = "''lang''" and tracking = 5]
    placeholder_read_traps [where X = sample_externals and s = init and P = en_us
      and fb = "{''lang''}" and ws = shell_store and ps = "PrerenderPPR 5" and w = 0
      and s' = "snd (makeErroringRootParams sample_externals en_us {''lang''} shell_store
                  (PrerenderPPR 5) init)"
      and key = "''locale''" and tracking = 5]
  by (simp add: model_defs sample_defs)

text \<open>
  Claim C7 as stated fails for a placeholder key with a reserved name: on the wrapper
  built under the PPR prerender for \<^verbatim>\<open>{lang: "en", then: "x"}\<close>, both keys placeholders,
  reading \<^verbatim>\<open>then\<close> finds no own property, records no suspend and throws nothing.
\<close>

theorem reserved_placeholder_read_does_not_trap:
  "get_property sample_externals 0 ''then''
     (snd (makeErroringRootParams sample_externals then_params {''lang'', ''then''} then_store
        (PrerenderPPR 5) init)) =
     (Inr Inherited,
      snd (makeErroringRootParams sample_externals then_params {''lang'', ''then''} then_store
        (PrerenderPPR 5) init)) \<and>
   events (snd (makeErroringRootParams sample_externals then_params {''lang'', ''then''}
        then_store (PrerenderPPR 5) init)) = [CacheSet then_params 0]"
  by (simp add: model_defs sample_defs)

text \<open>
  Claim C8, as the code has it. For a placeholder key that is not a reserved name, on a
  wrapper \<open>w\<close> built by \<^verbatim>\<open>makeErroringRootParams\<close>: after any number \<open>n\<close> of reads the key
  is still trapped, each read having recorded the interruption of the render mode once
  more and nothing else having changed, and a further read throws again. A write of \<open>v\<close>
  succeeds, records nothing, and replaces the accessor with a writable, enumerable data
  property holding \<open>v\<close>; the next read yields \<open>v\<close> and leaves the state as it is. From
  then on, whatever actions follow (reads, writes, resolver and builder calls, aborts),
  the key stays a writable, enumerable data property and a read yields its value without
  any event: there is no way back to the trapped state.
\<close>

theorem trapped_until_written:
  assumes "CachedParams s P = None"
    and "makeErroringRootParams X P fb ws ps s = (w, s')"
    and "key \<in> set (Object_keys P)"
    and "key \<notin> wellKnownProperties X"
    and "key \<in> fb"
  shows "(let sn = run X (replicate n (ReadProperty w key)) s';
              sw = snd (set_property w key v sn)
          in sn = s'\<lparr>events := events s' @ replicate n (trap_event X key ws ps)\<rparr> \<and>
             own_slot sn w key = Some (Accessor w key ws ps) \<and>
             get_property X w key sn =
               (Inl (trap_error X key ws ps), emit (trap_event X key ws ps) sn) \<and>
             set_property w key v sn = (Inr (), defineOwn w key (Data v True True) sn) \<and>
             own_slot sw w key = Some (Data v True True) \<and>
             events sw = events sn \<and>
             get_property X w key sw = (Inr (Read v), sw) \<and>
             (\<forall>acts. \<exists>v'. own_slot (run X acts sw) w key = Some (Data v' True True) \<and>
                 get_property X w key (run X acts sw) = (Inr (Read v'), run X acts sw)))"
proof -
  define sn where "sn = run X (replicate n (ReadProperty w key)) s'"
  define sw where "sw = snd (set_property w key v sn)"
  have w: "w = length (promises s)"
    using assms(1,2) by (simp add: makeErroringRootParams_miss)
  have slot: "own_slot s' w key = Some (Accessor w key ws ps)"
    using own_slot_makeErroringRootParams_miss [OF assms(1), of X fb ws ps w key] assms(2-5) w
    by simp
  have sn: "sn = s'\<lparr>events := events s' @ replicate n (trap_event X key ws ps)\<rparr>"
    unfolding sn_def by (rule trapped_reads [OF slot])
  have slotn: "own_slot sn w key = Some (Accessor w key ws ps)"
    using slot by (simp add: sn own_slot_def split: if_splits)
  have len: "w < length (promises sn)" using slotn by (rule own_slot_bound)
  have rd: "get_property X w key sn =
      (Inl (trap_error X key ws ps), emit (trap_event X key ws ps) sn)"
    by (simp add: get_property_cases slotn)
  have wr: "set_property w key v sn = (Inr (), defineOwn w key (Data v True True) sn)"
    by (simp add: set_property_def slotn returnE_def setter_def)
  have sw: "sw = defineOwn w key (Data v True True) sn" by (simp add: sw_def wr)
  have slotw: "own_slot sw w key = Some (Data v True True)"
    using len by (simp add: sw own_slot_defineOwn)
  have evw: "events sw = events sn" by (simp add: sw defineOwn_def)
  have rdw: "get_property X w key sw = (Inr (Read v), sw)"
    by (simp add: get_property_cases slotw)
  have res: "resolved sw w key" using slotw by (simp add: resolved_def)
  have later: "\<exists>v'. own_slot (run X acts sw) w key = Some (Data v' True True) \<and>
       get_property X w key (run X acts sw) = (Inr (Read v'), run X acts sw)" for acts
  proof -
    obtain v' where "own_slot (run X acts sw) w key = Some (Data v' True True)"
      using resolved_run [OF res, of X acts] by (auto simp: resolved_def)
    then show ?thesis by (simp add: get_property_cases)
  qed
  show ?thesis
    unfolding Let_def sn_def [symmetric] sw_def [symmetric]
    using sn slotn rd wr slotw evw rdw later by blast
qed

text \<open>
  An instance under the legacy prerender: two reads of \<^verbatim>\<open>lang\<close> record two aborts; after
  writing \<^verbatim>\<open>"fr"\<close> the read yields \<^verbatim>\<open>"fr"\<close> and the trace is as it was.
\<close>

theorem trapped_until_written_witness:
  "events (run sample_externals [ReadProperty 0 ''lang'', ReadProperty 0 ''lang'']
      (snd (makeErroringRootParams sample_externals en_us {''lang''} shell_store PrerenderLegacy
         init))) =
     [CacheSet en_us 0, Interrupt ''rootParams.lang'' shell_store PrerenderLegacy,
      Interrupt ''rootParams.lang'' shell_store PrerenderLegacy] \<and>
   fst (get_property sample_externals 0 ''lang''
      (snd (set_property 0 ''lang'' (Str ''fr'')
         (run sample_externals [ReadProperty 0 ''lang'', ReadProperty 0 ''lang'']
           (snd (makeErroringRootParams sample_externals en_us {''lang''} shell_store
              PrerenderLegacy init)))))) = Inr (Read (Str ''fr'')) \<and>
   events (snd (get_property sample_externals 0 ''lang''
      (snd (set_property 0 ''lang'' (Str ''fr'')
         (run sample_externals [ReadProperty 0 ''lang'', ReadProperty 0 ''lang'']
           (snd (makeErroringRootParams sample_externals en_us {''lang''} shell_store
              PrerenderLegacy init))))))) =
     [CacheSet en_us 0, Interrupt ''rootParams.lang'' shell_store PrerenderLegacy,
      Interrupt ''rootParams.lang'' shell_store PrerenderLegacy]"
  using trapped_until_written [where X = sample_externals and s = init and P = en_us
      and fb = "{''lang''}" and ws = shell_store and ps = PrerenderLegacy and w = 0
      and s' = "snd (makeErroringRootParams sample_externals en_us {''lang''} shell_store
                  PrerenderLegacy init)"
      and key = "''lang''" and n = "Suc (Suc 0)" and v = "Str ''fr''"]
  by (simp add: model_defs sample_defs trap_event_def trap_error_def)

text \<open>
  Claim C8 as stated fails for a placeholder key with a reserved name: on the wrapper
  built under the legacy prerender for \<^verbatim>\<open>{lang: "en", then: "x"}\<close>, the key \<^verbatim>\<open>then\<close> has no
  accessor, and a read before any write records no abort.
\<close>

theorem reserved_placeholder_is_never_trapped:
  "fst (get_property sample_externals 0 ''then''
     (snd (makeErroringRootParams sample_externals then_params {''lang'', ''then''} then_store
        PrerenderLegacy init))) = Inr Inherited \<and>
   events (snd (get_property sample_externals 0 ''then''
     (snd (makeErroringRootParams sample_externals then_params {''lang'', ''then''} then_store
        PrerenderLegacy init)))) = [CacheSet then_params 0] \<and>
   own_slot (snd (makeErroringRootParams sample_externals then_params {''lang'', ''then''}
        then_store PrerenderLegacy init)) 0 ''then'' = None"
  by (simp add: model_defs sample_defs)

section \<open>Reserved member names\<close>

text \<open>
  Claim C10. For a reserved name, neither builder changes the own property of that name
  on any promise: on the wrapper it returns, the member is what it was (absent, on a
  wrapper it has just built). When a builder builds the wrapper (the ParamSet is not in
  the cache), the own properties of the wrapper are exactly the keys of the ParamSet that
  are not reserved: plain values copied from the ParamSet in the untracked builder, and
  in the erroring builder an accessor for a placeholder key and a plain value otherwise.
\<close>

theorem reserved_names_untouched:
  assumes "name \<in> wellKnownProperties X"
  shows "(\<forall>r. own_slot (snd (makeUntrackedRootParams X P s)) r name = own_slot s r name) \<and>
         (\<forall>r. own_slot (snd (makeErroringRootParams X P fb ws ps s)) r name
               = own_slot s r name) \<and>
         (CachedParams s P = None \<longrightarrow>
            (\<forall>k. own_slot (snd (makeUntrackedRootParams X P s))
                    (fst (makeUntrackedRootParams X P s)) k =
                  (if k \<in> set (Object_keys P) \<and> k \<notin> wellKnownProperties X
                   then Some (Data (get_param P k) True True) else None)) \<and>
            (\<forall>k. own_slot (snd (makeErroringRootParams X P fb ws ps s))
                    (fst (makeErroringRootParams X P fb ws ps s)) k =
                  (if k \<in> set (Object_keys P) \<and> k \<notin> wellKnownProperties X
                   then Some (if k \<in> fb
                              then Accessor (fst (makeErroringRootParams X P fb ws ps s)) k ws ps
                              else Data (get_param P k) True True)
                   else None)))"
proof -
  have out: "own_slot s (length (promises s)) k = None" for k
    by (simp add: own_slot_def)
  have u: "own_slot (snd (makeUntrackedRootParams X P s)) r name = own_slot s r name" for r
  proof (cases "CachedParams s P")
    case None
    then show ?thesis using assms by (simp add: own_slot_makeUntrackedRootParams_miss out)
  next
    case (Some w)
    then show ?thesis by (simp add: makeUntrackedRootParams_hit)
  qed
  have e: "own_slot (snd (makeErroringRootParams X P fb ws ps s)) r name = own_slot s r name"
    for r
  proof (cases "CachedParams s P")
    case None
    then show ?thesis using assms by (simp add: own_slot_makeErroringRootParams_miss out)
  next
    case (Some w)
    then show ?thesis by (simp add: makeErroringRootParams_hit)
  qed
  have miss_u: "own_slot (snd (makeUntrackedRootParams X P s))
                    (fst (makeUntrackedRootParams X P s)) k =
                  (if k \<in> set (Object_keys P) \<and> k \<notin> wellKnownProperties X
                   then Some (Data (get_param P k) True True) else None)"
    if "CachedParams s P = None" for k
    using that
    by (simp add: own_slot_makeUntrackedRootParams_miss) (simp add: makeUntrackedRootParams_miss)
  have miss_e: "own_slot (snd (makeErroringRootParams X P fb ws ps s))
                    (fst (makeErroringRootParams X P fb ws ps s)) k =
                  (if k \<in> set (Object_keys P) \<and> k \<notin> wellKnownProperties X
                   then Some (if k \<in> fb
                              then Accessor (fst (makeErroringRootParams X P fb ws ps s)) k ws ps
                              else Data (get_param P k) True True)
                   else None)"
    if "CachedParams s P = None" for k
    using that
    by (simp add: own_slot_makeErroringRootParams_miss) (simp add: makeErroringRootParams_miss)
  show ?thesis using u e miss_u miss_e by blast
qed

text \<open>
  An instance: for \<^verbatim>\<open>{lang: "en", then: "x"}\<close> both builders leave \<^verbatim>\<open>then\<close> alone and define
  \<^verbatim>\<open>lang\<close> only.
\<close>

theorem reserved_names_untouched_witness:
  "own_slot (snd (makeUntrackedRootParams sample_externals then_params init)) 0 ''then'' = None \<and>
   own_slot (snd (makeErroringRootParams sample_externals then_params {''lang'', ''then''}
       then_store (PrerenderPPR 5) init)) 0 ''then'' = None \<and>
   own (promises (snd (makeUntrackedRootParams sample_externals then_params init)) ! 0) =
     [(''lang'', Data (Str ''en'') True True)] \<and>
   own (promises (snd (makeErroringRootParams sample_externals then_params {''lang'', ''then''}
       then_store (PrerenderPPR 5) init)) ! 0) =
     [(''lang'', Accessor 0 ''lang'' then_store (PrerenderPPR 5))] \<and>
   ''then'' \<in> wellKnownProperties sample_externals \<and>
   CachedParams init then_params = None"
  using reserved_names_untouched [where X = sample_externals and name = "''then''"
      and P = then_params and s = init and fb = "{''lang'', ''then''}" and ws = then_store
      and ps = "PrerenderPPR 5"]
  by (simp add: model_defs sample_defs)


end
